theory Spec2Isabelle
  imports Main "HOL-Library.AList" "HOL-Library.Sublist"
begin

section \<open>run_swarm.py: a wrapper that fetches reads, runs Swarm and publishes the results\<close>

text \<open>
  The script is a sequence of effects on the operating system: it launches child
  processes, reads and writes files and writes log lines. The embedding threads an explicit
  \<open>world\<close> (file system, number of processes launched, log) through every function, and
  every Python exception is a value \<open>Inl e\<close> of the result. What an external program does
  is not in the script, so it is a parameter \<open>sys\<close> of every function that launches one.
  Text is Python 2 \<open>str\<close> (the script's interpreter line is \<open>/usr/bin/python\<close>), modelled as
  \<open>string\<close>.
\<close>

subsection \<open>Python strings\<close>

text \<open>\<open>s.split(c)\<close> for a one-character separator: the pieces between the separators, empty
  pieces kept, so the result is never empty.\<close>

primrec split_on :: "char \<Rightarrow> string \<Rightarrow> string list" where
  "split_on c [] = [[]]"
| "split_on c (x # xs) =
     (if x = c then [] # split_on c xs
      else (case split_on c xs of [] \<Rightarrow> [[x]] | y # ys \<Rightarrow> (x # y) # ys))"

text \<open>\<open>sep.join(xs)\<close>.\<close>

fun join_with :: "string \<Rightarrow> string list \<Rightarrow> string" where
  "join_with sep [] = []"
| "join_with sep [x] = x"
| "join_with sep (x # y # ys) = x @ sep @ join_with sep (y # ys)"

text \<open>\<open>s.startswith(p)\<close> and \<open>s.endswith(p)\<close>.\<close>

definition startswith :: "string \<Rightarrow> string \<Rightarrow> bool" where
  "startswith s p = prefix p s"

definition endswith :: "string \<Rightarrow> string \<Rightarrow> bool" where
  "endswith s p = suffix p s"

text \<open>\<open>"{}".format(n)\<close> for an integer: decimal digits, a minus sign when negative.\<close>

fun str_nat :: "nat \<Rightarrow> string" where
  "str_nat n =
     (if n < 10 then [''0123456789'' ! n]
      else str_nat (n div 10) @ [''0123456789'' ! (n mod 10)])"

declare str_nat.simps [simp del]

definition str_int :: "int \<Rightarrow> string" where
  "str_int i = (if i < 0 then ''-'' @ str_nat (nat (- i)) else str_nat (nat i))"

subsection \<open>Python values and exceptions\<close>

text \<open>The exceptions the script can raise, each with its message or the path it is about.\<close>

datatype error =
    AssertionError string
  | Exception string
  | IOError string
  | OSError string
  | ShutilError string
  | IndexError
  | AttributeError

text \<open>Whether an exception is of the plain class \<open>Exception\<close>, the one line 139 raises.\<close>

fun is_Exception :: "error \<Rightarrow> bool" where
  "is_Exception (Exception m) = True"
| "is_Exception e = False"

text \<open>The values the script's variables and results take. \<open>run_cmds\<close> keeps in one variable
  either the captured text or the constant \<open>False\<close>, \<open>None\<close> is what a function without a
  \<open>return\<close> statement returns, and \<open>exit_and_clean_up\<close> hands an exception object to
  \<open>sys.exit\<close>.\<close>

datatype pyval =
    PyNone
  | PyFalse
  | PyInt int
  | PyStr string
  | PyTuple "pyval list"
  | PyExc error

fun truthy :: "pyval \<Rightarrow> bool" where
  "truthy PyNone = False"
| "truthy PyFalse = False"
| "truthy (PyInt i) = (i \<noteq> 0)"
| "truthy (PyStr s) = (s \<noteq> [])"
| "truthy (PyTuple vs) = (vs \<noteq> [])"
| "truthy (PyExc e) = True"

subsection \<open>The operating system\<close>

text \<open>
  The file system is a finite table from path strings to nodes. Paths are compared as strings
  (no \<open>.\<close>, \<open>..\<close> or doubled slashes are resolved) and symbolic links are not modelled.
  The root \<open>/\<close> always exists and is not an entry of the table; a path without a directory
  part lies in the current directory, which always exists too.
\<close>

type_synonym path = string

datatype node = File string | Dir

type_synonym fsys = "(path \<times> node) list"

datatype stream = Out | Err

text \<open>What one child process did: its exit status, what it wrote to its standard output and
  standard error (in the order written), and the file system it left.\<close>

record proc =
  exitcode :: int
  chunks :: "(stream \<times> string) list"
  fs_after :: fsys

text \<open>The external programs: from the argument vector, the number of processes launched
  before this one (so that a program may fail at first and succeed later) and the file system
  it starts on, what the process does; \<open>None\<close> when the program cannot be executed at all
  (\<open>Popen\<close> raises \<open>OSError\<close>).\<close>

type_synonym system = "string list \<Rightarrow> nat \<Rightarrow> fsys \<Rightarrow> proc option"

record world =
  fs :: fsys
  clock :: nat
  log :: "string list"

definition info :: "string \<Rightarrow> world \<Rightarrow> world" where
  "info msg w = w\<lparr>log := log w @ [msg]\<rparr>"

definition infos :: "string list \<Rightarrow> world \<Rightarrow> world" where
  "infos msgs w = w\<lparr>log := log w @ msgs\<rparr>"

definition stream_text :: "stream \<Rightarrow> proc \<Rightarrow> string" where
  "stream_text s r = concat (map snd (filter (\<lambda>c. fst c = s) (chunks r)))"

definition combined_text :: "proc \<Rightarrow> string" where
  "combined_text r = concat (map snd (chunks r))"

definition exists :: "fsys \<Rightarrow> path \<Rightarrow> bool" where
  "exists f p = (p = ''/'' \<or> map_of f p \<noteq> None)"

definition isdir :: "fsys \<Rightarrow> path \<Rightarrow> bool" where
  "isdir f p = (p = ''/'' \<or> map_of f p = Some Dir)"

text \<open>\<open>os.path.dirname\<close>: everything before the last slash, without trailing slashes unless
  it consists of slashes only.\<close>

definition dirname :: "path \<Rightarrow> path" where
  "dirname p =
     (let hd_part = rev (dropWhile (\<lambda>c. c \<noteq> CHR ''/'') (rev p)) in
      if hd_part \<noteq> [] \<and> \<not> list_all (\<lambda>c. c = CHR ''/'') hd_part
      then rev (dropWhile (\<lambda>c. c = CHR ''/'') (rev hd_part)) else hd_part)"

definition parent_ok :: "fsys \<Rightarrow> path \<Rightarrow> bool" where
  "parent_ok f p = (dirname p = [] \<or> isdir f (dirname p))"

text \<open>\<open>open(p, "wt")\<close>: creates the file or truncates it; fails on a directory and where the
  directory of \<open>p\<close> does not exist.\<close>

definition open_wt :: "fsys \<Rightarrow> path \<Rightarrow> error + fsys" where
  "open_wt f p =
     (if p = [] \<or> isdir f p \<or> \<not> parent_ok f p then Inl (IOError p)
      else Inr (AList.update p (File []) f))"

text \<open>What a process wrote to a descriptor open on \<open>p\<close> is the content of \<open>p\<close> when the
  process ends, if the file is still there.\<close>

definition write_fd :: "fsys \<Rightarrow> path \<Rightarrow> string \<Rightarrow> fsys" where
  "write_fd f p txt =
     (case map_of f p of Some (File _) \<Rightarrow> AList.update p (File txt) f | _ \<Rightarrow> f)"

subsection \<open>run_cmds\<close>

text \<open>
  Lines 19 to 31: the child process is launched and waited for. Without a redirect path its
  standard output and standard error share one pipe: the variable \<open>stdout\<close> is the combined
  text and \<open>stderr\<close> is \<open>None\<close>. With a redirect path the file is opened for writing first,
  standard output goes to it, \<open>stderr\<close> is the text of standard error and \<open>stdout\<close> is set to
  \<open>False\<close>. The result is \<open>(exitcode, stdout, stderr)\<close>.
\<close>

definition launch ::
  "system \<Rightarrow> string list \<Rightarrow> path option \<Rightarrow> world \<Rightarrow> (error + int \<times> pyval \<times> pyval) \<times> world" where
  "launch sys commands stdout w =
     (case stdout of
        None \<Rightarrow>
          (case sys commands (clock w) (fs w) of
             None \<Rightarrow> (Inl (OSError (join_with '' '' commands)), w\<lparr>clock := Suc (clock w)\<rparr>)
           | Some r \<Rightarrow>
               (Inr (exitcode r, PyStr (combined_text r), PyNone),
                w\<lparr>fs := fs_after r, clock := Suc (clock w)\<rparr>))
      | Some p \<Rightarrow>
          (case open_wt (fs w) p of
             Inl e \<Rightarrow> (Inl e, w)
           | Inr f1 \<Rightarrow>
               (case sys commands (clock w) f1 of
                  None \<Rightarrow>
                    (Inl (OSError (join_with '' '' commands)),
                     w\<lparr>fs := f1, clock := Suc (clock w)\<rparr>)
                | Some r \<Rightarrow>
                    (Inr (exitcode r, PyFalse, PyStr (stream_text Err r)),
                     w\<lparr>fs := write_fd (fs_after r) p (stream_text Out r),
                       clock := Suc (clock w)\<rparr>))))"

text \<open>Lines 32 to 39: a captured text that is truthy is logged under a title, line by line.
  Only a string has \<open>split\<close>.\<close>

definition log_output :: "string \<Rightarrow> pyval \<Rightarrow> world \<Rightarrow> error + world" where
  "log_output title v w =
     (if truthy v then
        (case v of
           PyStr s \<Rightarrow> Inr (infos (title # split_on CHR 0x0A s) w)
         | _ \<Rightarrow> Inl AttributeError)
      else Inr w)"

text \<open>Lines 17 to 39: one execution of the command with its log lines; the value is the
  exit status.\<close>

definition attempt ::
  "system \<Rightarrow> string list \<Rightarrow> path option \<Rightarrow> world \<Rightarrow> (error + int) \<times> world" where
  "attempt sys commands stdout w =
     (case launch sys commands stdout (info (join_with '' '' commands) (info ''Commands:'' w)) of
        (Inl e, w1) \<Rightarrow> (Inl e, w1)
      | (Inr (code, out, err), w1) \<Rightarrow>
          (case log_output ''Standard output of subprocess:'' out w1 of
             Inl e \<Rightarrow> (Inl e, w1)
           | Inr w2 \<Rightarrow>
               (case log_output ''Standard error of subprocess:'' err w2 of
                  Inl e \<Rightarrow> (Inl e, w2)
                | Inr w3 \<Rightarrow> (Inr code, w3))))"

text \<open>
  \<open>run_cmds(commands, retry=0, catchExcept=False, stdout=None)\<close>, lines 15 to 50: one
  execution, then the exit status decides. The function has no \<open>return\<close> statement: when
  it does not raise, its value is \<open>None\<close>. The retry of line 45 passes \<open>commands\<close> and
  \<open>retry - 1\<close> only, so the retried call runs with \<open>catchExcept=False\<close> and
  \<open>stdout=None\<close>, and its value is dropped.
\<close>

function run_cmds ::
  "system \<Rightarrow> string list \<Rightarrow> int \<Rightarrow> bool \<Rightarrow> path option \<Rightarrow> world \<Rightarrow> (error + pyval) \<times> world" where
  "run_cmds sys commands retry catchExcept stdout w =
     (case attempt sys commands stdout w of
        (Inl e, w1) \<Rightarrow> (Inl e, w1)
      | (Inr code, w1) \<Rightarrow>
          if code \<noteq> 0 \<and> retry > 0 then
            (case run_cmds sys commands (retry - 1) False None
                    (info (''Exit code '' @ str_int code @ '', retrying ''
                             @ str_int retry @ '' more times'') w1) of
               (Inl e, w2) \<Rightarrow> (Inl e, w2)
             | (Inr _, w2) \<Rightarrow> (Inr PyNone, w2))
          else if code \<noteq> 0 \<and> catchExcept then
            (Inr PyNone,
             info (''Exit code was '' @ str_int code @ '', but we will continue anyway'') w1)
          else if code = 0 then (Inr PyNone, w1)
          else (Inl (AssertionError (''Exit code '' @ str_int code)), w1))"
  by pat_completeness auto
termination
  by (relation "measure (\<lambda>(sys, commands, retry, catchExcept, stdout, w). nat retry)") auto

declare run_cmds.simps [simp del]

subsection \<open>File operations of the standard library\<close>

text \<open>\<open>os.path.join(a, b)\<close>.\<close>

definition path_join :: "path \<Rightarrow> path \<Rightarrow> path" where
  "path_join a b =
     (if startswith b ''/'' then b
      else if a = [] \<or> endswith a ''/'' then a @ b
      else a @ ''/'' @ b)"

text \<open>\<open>is_under d p\<close>: the path \<open>p\<close> lies below the directory \<open>d\<close>.\<close>

definition is_under :: "path \<Rightarrow> path \<Rightarrow> bool" where
  "is_under d p = startswith p (d @ ''/'')"

text \<open>\<open>shutil.copyfile(src, dst)\<close>: refuses to copy a file onto itself, reads \<open>src\<close> and
  writes \<open>dst\<close>.\<close>

definition copyfile :: "fsys \<Rightarrow> path \<Rightarrow> path \<Rightarrow> error + fsys" where
  "copyfile f src dst =
     (if src = dst \<and> exists f src then Inl (ShutilError src)
      else
        (case map_of f src of
           Some (File c) \<Rightarrow>
             (case open_wt f dst of
                Inl e \<Rightarrow> Inl e
              | Inr f1 \<Rightarrow> Inr (AList.update dst (File c) f1))
         | _ \<Rightarrow> Inl (IOError src)))"

text \<open>\<open>os.mkdir(p)\<close>: fails where \<open>p\<close> exists and where its directory does not.\<close>

definition mkdir :: "fsys \<Rightarrow> path \<Rightarrow> error + fsys" where
  "mkdir f p =
     (if p = [] \<or> exists f p \<or> \<not> parent_ok f p then Inl (OSError p)
      else Inr (AList.update p Dir f))"

text \<open>\<open>os.listdir(d)\<close>: the names of the entries directly in \<open>d\<close>.\<close>

definition child_name :: "path \<Rightarrow> path \<Rightarrow> string option" where
  "child_name d p =
     (let ds = (if endswith d ''/'' then d else d @ ''/''); nm = drop (length ds) p in
      if startswith p ds \<and> nm \<noteq> [] \<and> CHR ''/'' \<notin> set nm then Some nm else None)"

definition entries :: "fsys \<Rightarrow> path \<Rightarrow> string list" where
  "entries f d = remdups (List.map_filter (child_name d) (map fst f))"

definition listdir :: "fsys \<Rightarrow> path \<Rightarrow> error + string list" where
  "listdir f d = (if isdir f d then Inr (entries f d) else Inl (OSError d))"

text \<open>\<open>os.unlink(p)\<close>: removes a file; fails on a directory and on a missing path.\<close>

definition unlink :: "fsys \<Rightarrow> path \<Rightarrow> error + fsys" where
  "unlink f p =
     (case map_of f p of
        Some (File c) \<Rightarrow> Inr (AList.delete p f)
      | _ \<Rightarrow> Inl (OSError p))"

text \<open>\<open>shutil.rmtree(d)\<close>: removes the directory \<open>d\<close> with everything below it; fails, with
  nothing removed, when \<open>d\<close> is not a directory. (On the root the model fails at once; the
  script never gets there.)\<close>

definition rmtree :: "fsys \<Rightarrow> path \<Rightarrow> error + fsys" where
  "rmtree f d =
     (if d = ''/'' \<or> \<not> isdir f d then Inl (OSError d)
      else Inr (filter (\<lambda>e. fst e \<noteq> d \<and> \<not> is_under d (fst e)) f))"

text \<open>\<open>os.stat(p).st_size\<close>: the length of a file; a directory has the size of one block.\<close>

definition st_size :: "fsys \<Rightarrow> path \<Rightarrow> error + int" where
  "st_size f p =
     (case map_of f p of
        None \<Rightarrow> Inl (OSError p)
      | Some (File c) \<Rightarrow> Inr (int (length c))
      | Some Dir \<Rightarrow> Inr 4096)"

text \<open>\<open>logging.FileHandler(p)\<close> opens \<open>p\<close> for appending. The table records that the log
  file exists; the lines written to it are the \<open>log\<close> of the world.\<close>

definition open_append :: "fsys \<Rightarrow> path \<Rightarrow> error + fsys" where
  "open_append f p =
     (if p = [] \<or> isdir f p \<or> \<not> parent_ok f p then Inl (IOError p)
      else if exists f p then Inr f
      else Inr (AList.update p (File []) f))"

subsection \<open>return_results\<close>

text \<open>\<open>return_results(fp, output_folder, gzip=True)\<close>, lines 53 to 74.\<close>

definition return_results ::
  "system \<Rightarrow> path \<Rightarrow> string \<Rightarrow> bool \<Rightarrow> world \<Rightarrow> (error + unit) \<times> world" where
  "return_results sys fp output_folder gzip w =
     (case (if gzip then
              (case run_cmds sys [''gzip'', fp] 0 False None w of
                 (Inl e, w1) \<Rightarrow> (Inl e, w1)
               | (Inr _, w1) \<Rightarrow> (Inr (fp @ ''.gz''), w1))
            else (Inr fp, w)) of
        (Inl e, w1) \<Rightarrow> (Inl e, w1)
      | (Inr fp1, w1) \<Rightarrow>
          (case (if startswith output_folder ''s3://'' then
                   run_cmds sys [''aws'', ''s3'', ''cp'', ''--quiet'', ''--sse'', ''AES256'',
                                 fp1, output_folder] 0 False None w1
                 else run_cmds sys [''mv'', fp1, output_folder] 0 False None w1) of
             (Inl e, w2) \<Rightarrow> (Inl e, w2)
           | (Inr _, w2) \<Rightarrow> (Inr (), w2)))"

subsection \<open>set_up_sra_cache_folder and get_sra\<close>

text \<open>Lines 160 to 165: each of the two directories is made unless it exists.\<close>

fun make_missing_dirs :: "path list \<Rightarrow> fsys \<Rightarrow> error + fsys" where
  "make_missing_dirs [] f = Inr f"
| "make_missing_dirs (p # ps) f =
     (if \<not> exists f p then
        (case mkdir f p of Inl e \<Rightarrow> Inl e | Inr f1 \<Rightarrow> make_missing_dirs ps f1)
      else make_missing_dirs ps f)"

text \<open>\<open>set_up_sra_cache_folder(temp_folder)\<close>, lines 157 to 178.\<close>

definition set_up_sra_cache_folder ::
  "system \<Rightarrow> path \<Rightarrow> world \<Rightarrow> (error + unit) \<times> world" where
  "set_up_sra_cache_folder sys temp_folder w =
     (let w0 = info (''Setting up fastq-dump cache within '' @ temp_folder) w in
      case make_missing_dirs [''/root/ncbi'', ''/root/ncbi/public''] (fs w0) of
        Inl e \<Rightarrow> (Inl e, w0)
      | Inr f1 \<Rightarrow>
          (case (if exists f1 ''/root/ncbi/public/sra'' then rmtree f1 ''/root/ncbi/public/sra''
                 else Inr f1) of
             Inl e \<Rightarrow> (Inl e, w0\<lparr>fs := f1\<rparr>)
           | Inr f2 \<Rightarrow>
               (let temp_cache = path_join temp_folder ''sra'' in
                if exists f2 temp_cache then (Inl (AssertionError []), w0\<lparr>fs := f2\<rparr>)
                else
                  (case mkdir f2 temp_cache of
                     Inl e \<Rightarrow> (Inl e, w0\<lparr>fs := f2\<rparr>)
                   | Inr f3 \<Rightarrow>
                       (case run_cmds sys [''ln'', ''-s'', ''-f'', temp_cache,
                                           ''/root/ncbi/public/sra''] 0 False None
                               (w0\<lparr>fs := f3\<rparr>) of
                          (Inl e, w1) \<Rightarrow> (Inl e, w1)
                        | (Inr _, w1) \<Rightarrow>
                            if exists (fs w1) ''/root/ncbi/public/sra'' then (Inr (), w1)
                            else (Inl (AssertionError []), w1))))))"

text \<open>Lines 212 to 215: the shell is started on one command line with its standard output
  in the file \<open>p\<close>; its standard error is not captured and its exit status is not looked
  at.\<close>

definition shell_to_file :: "system \<Rightarrow> string \<Rightarrow> path \<Rightarrow> world \<Rightarrow> (error + unit) \<times> world" where
  "shell_to_file sys cmd p w =
     (case open_wt (fs w) p of
        Inl e \<Rightarrow> (Inl e, w)
      | Inr f1 \<Rightarrow>
          (case sys [''/bin/sh'', ''-c'', cmd] (clock w) f1 of
             None \<Rightarrow> (Inl (OSError ''/bin/sh''), w\<lparr>fs := f1, clock := Suc (clock w)\<rparr>)
           | Some r \<Rightarrow>
               (Inr (), w\<lparr>fs := write_fd (fs_after r) p (stream_text Out r),
                          clock := Suc (clock w)\<rparr>)))"

text \<open>The test of lines 206 and 219: the name starts with the accession and ends with
  \<open>fastq\<close>.\<close>

definition is_part :: "string \<Rightarrow> string \<Rightarrow> bool" where
  "is_part accession fp = (startswith fp accession \<and> endswith fp ''fastq'')"

text \<open>Lines 218 to 222: every listed name that passes the test is unlinked.\<close>

fun remove_parts :: "string \<Rightarrow> path \<Rightarrow> string list \<Rightarrow> world \<Rightarrow> (error + unit) \<times> world" where
  "remove_parts accession temp_folder [] w = (Inr (), w)"
| "remove_parts accession temp_folder (fp # fps) w =
     (if is_part accession fp then
        (let p = path_join temp_folder fp; w1 = info (''Removing '' @ p) w in
         case unlink (fs w1) p of
           Inl e \<Rightarrow> (Inl e, w1)
         | Inr f \<Rightarrow> remove_parts accession temp_folder fps (w1\<lparr>fs := f\<rparr>))
      else remove_parts accession temp_folder fps w)"

text \<open>Lines 210 to 235 of \<open>get_sra\<close>: the files the export wrote are concatenated by the shell
  into \<open>local_path + ".temp"\<close>, the parts and the cached archive are removed, and the combined
  file is moved to \<open>local_path\<close>.\<close>

definition combine_parts ::
  "system \<Rightarrow> string \<Rightarrow> path \<Rightarrow> path \<Rightarrow> world \<Rightarrow> (error + path) \<times> world" where
  "combine_parts sys accession temp_folder local_path w =
     (case shell_to_file sys (''cat '' @ temp_folder @ ''/'' @ accession @ ''*fastq'')
             (local_path @ ''.temp'') (info ''Concatenating output files'' w) of
        (Inl e, w1) \<Rightarrow> (Inl e, w1)
      | (Inr _, w1) \<Rightarrow>
          (case listdir (fs w1) temp_folder of
             Inl e \<Rightarrow> (Inl e, w1)
           | Inr names \<Rightarrow>
               (case remove_parts accession temp_folder names w1 of
                  (Inl e, w2) \<Rightarrow> (Inl e, w2)
                | (Inr _, w2) \<Rightarrow>
                    (let cache_fp = ''/root/ncbi/public/sra/'' @ accession @ ''.sra'' in
                     case (if exists (fs w2) cache_fp then
                             (case unlink (fs w2) cache_fp of
                                Inl e \<Rightarrow> (Inl e, info (''Removing '' @ cache_fp) w2)
                              | Inr f \<Rightarrow> (Inr (), (info (''Removing '' @ cache_fp) w2)\<lparr>fs := f\<rparr>))
                           else (Inr (), w2)) of
                       (Inl e, w3) \<Rightarrow> (Inl e, w3)
                     | (Inr _, w3) \<Rightarrow>
                         (case run_cmds sys [''mv'', local_path @ ''.temp'', local_path]
                                 0 False None w3 of
                            (Inl e, w4) \<Rightarrow> (Inl e, w4)
                          | (Inr _, w4) \<Rightarrow>
                              (Inr local_path, info (''Done fetching '' @ accession) w4))))))"

text \<open>\<open>get_sra(accession, temp_folder)\<close>, lines 181 to 235.\<close>

definition get_sra :: "system \<Rightarrow> string \<Rightarrow> path \<Rightarrow> world \<Rightarrow> (error + path) \<times> world" where
  "get_sra sys accession temp_folder w =
     (case set_up_sra_cache_folder sys temp_folder w of
        (Inl e, w1) \<Rightarrow> (Inl e, w1)
      | (Inr _, w1) \<Rightarrow>
          (let local_path = path_join temp_folder (accession @ ''.fastq'');
               w2 = info ''Downloading via fastq-dump''
                      (info (''Local path: '' @ local_path)
                         (info (''Downloading '' @ accession @ '' from SRA'') w1)) in
           case run_cmds sys [''prefetch'', accession] 0 False None w2 of
             (Inl e, w3) \<Rightarrow> (Inl e, w3)
           | (Inr _, w3) \<Rightarrow>
               (case run_cmds sys [''fastq-dump'', ''--split-files'', ''--outdir'',
                                   temp_folder, accession] 0 False None w3 of
                  (Inl e, w4) \<Rightarrow> (Inl e, w4)
                | (Inr _, w4) \<Rightarrow>
                    (case listdir (fs w4) temp_folder of
                       Inl e \<Rightarrow> (Inl e, w4)
                     | Inr names \<Rightarrow>
                         if list_ex (is_part accession) names
                         then combine_parts sys accession temp_folder local_path w4
                         else (Inl (AssertionError
                                 (''File could not be downloaded from SRA: '' @ accession)),
                               w4)))))"

subsection \<open>get_reads_from_url\<close>

text \<open>\<open>s.split(sep, 1)[0]\<close> for a non-empty separator: the text before the first occurrence of
  \<open>sep\<close>, all of \<open>s\<close> when there is none.\<close>

fun before_sep :: "string \<Rightarrow> string \<Rightarrow> string" where
  "before_sep sep [] = []"
| "before_sep sep (x # xs) = (if prefix sep (x # xs) then [] else x # before_sep sep xs)"

text \<open>The branch the conditions of lines 108, 120, 128, 133 and 138 select, in their
  order.\<close>

datatype backend = LocalCopy | ObjectStoreCopy | UrlFetch | ArchiveFetch | Unrecognized

definition source_branch :: "string \<Rightarrow> backend" where
  "source_branch input_str =
     (if \<not> (startswith input_str ''s3://'' \<or> startswith input_str ''sra://''
             \<or> startswith input_str ''ftp://'' \<or> startswith input_str ''https://''
             \<or> startswith input_str ''http://'') then LocalCopy
      else if startswith input_str ''s3://'' then ObjectStoreCopy
      else if before_sep ''://'' input_str \<in> set [''ftp'', ''https'', ''http''] then UrlFetch
      else if startswith input_str ''sra://'' then ArchiveFetch
      else Unrecognized)"

text \<open>Lines 108 to 139: what each branch does.\<close>

definition fetch_reads ::
  "system \<Rightarrow> string \<Rightarrow> path \<Rightarrow> string \<Rightarrow> path \<Rightarrow> world \<Rightarrow> (error + path) \<times> world" where
  "fetch_reads sys input_str temp_folder filename local_path w =
     (case source_branch input_str of
        LocalCopy \<Rightarrow>
          (let w1 = info ''Treating as local path'' w in
           if \<not> exists (fs w1) input_str
           then (Inl (AssertionError (''Input file does not exist ('' @ input_str @ '')'')), w1)
           else
             (let w2 = info ''Making a copy in the temporary folder'' w1 in
              case copyfile (fs w2) input_str local_path of
                Inl e \<Rightarrow> (Inl e, w2)
              | Inr f \<Rightarrow> (Inr local_path, w2\<lparr>fs := f\<rparr>)))
      | ObjectStoreCopy \<Rightarrow>
          (case run_cmds sys [''aws'', ''s3'', ''cp'', ''--quiet'', ''--sse'', ''AES256'',
                              input_str, temp_folder] 0 False None
                  (info ''Getting reads from S3'' w) of
             (Inl e, w1) \<Rightarrow> (Inl e, w1)
           | (Inr _, w1) \<Rightarrow> (Inr local_path, w1))
      | UrlFetch \<Rightarrow>
          (case run_cmds sys [''wget'', ''-P'', temp_folder, input_str] 0 False None
                  (info ''Getting reads from FTP'' w) of
             (Inl e, w1) \<Rightarrow> (Inl e, w1)
           | (Inr _, w1) \<Rightarrow> (Inr local_path, w1))
      | ArchiveFetch \<Rightarrow>
          get_sra sys filename temp_folder (info (''Getting reads from SRA: '' @ filename) w)
      | Unrecognized \<Rightarrow>
          (Inl (Exception (''Did not recognize prefix for input: '' @ input_str)), w))"

text \<open>Lines 141 to 145: a path that ends in \<open>.gz\<close> is decompressed and loses the
  suffix.\<close>

definition decompress_reads :: "system \<Rightarrow> path \<Rightarrow> world \<Rightarrow> (error + path) \<times> world" where
  "decompress_reads sys local_path w =
     (if endswith local_path ''.gz'' then
        (case run_cmds sys [''pigz'', ''-d'', local_path] 0 False None
                (info (''Decompressing '' @ local_path) w) of
           (Inl e, w1) \<Rightarrow> (Inl e, w1)
         | (Inr _, w1) \<Rightarrow> (Inr (take (length local_path - 3) local_path), w1))
      else (Inr local_path, w))"

text \<open>Lines 147 to 152: a path whose last character is \<open>q\<close> or \<open>Q\<close> is converted, the last
  character becoming \<open>a\<close>. Indexing the empty string raises \<open>IndexError\<close>.\<close>

definition convert_reads :: "system \<Rightarrow> path \<Rightarrow> world \<Rightarrow> (error + path) \<times> world" where
  "convert_reads sys local_path w =
     (if local_path = [] then (Inl IndexError, w)
      else if last local_path = CHR ''q'' \<or> last local_path = CHR ''Q'' then
        (case run_cmds sys [''fastq_to_fasta'', ''-i'', local_path, ''-o'',
                            butlast local_path @ ''a''] 0 False None
                (info ''Converting to FASTA'' w) of
           (Inl e, w1) \<Rightarrow> (Inl e, w1)
         | (Inr _, w1) \<Rightarrow> (Inr (butlast local_path @ ''a''), w1))
      else (Inr local_path, w))"

text \<open>Lines 141 to 154: the two steps in their order.\<close>

definition normalize_reads :: "system \<Rightarrow> path \<Rightarrow> world \<Rightarrow> (error + path) \<times> world" where
  "normalize_reads sys local_path w =
     (case decompress_reads sys local_path w of
        (Inl e, w1) \<Rightarrow> (Inl e, w1)
      | (Inr lp, w1) \<Rightarrow> convert_reads sys lp w1)"

text \<open>\<open>get_reads_from_url(input_str, temp_folder)\<close>, lines 95 to 154.\<close>

definition get_reads_from_url ::
  "system \<Rightarrow> string \<Rightarrow> path \<Rightarrow> world \<Rightarrow> (error + path) \<times> world" where
  "get_reads_from_url sys input_str temp_folder w =
     (let filename = last (split_on CHR ''/'' input_str);
          local_path = path_join temp_folder filename;
          w1 = info (''Local path: '' @ local_path)
                 (info (''Filename: '' @ filename)
                    (info (''Getting reads from '' @ input_str) w)) in
      case fetch_reads sys input_str temp_folder filename local_path w1 of
        (Inl e, w2) \<Rightarrow> (Inl e, w2)
      | (Inr fetched, w2) \<Rightarrow> normalize_reads sys fetched w2)"

subsection \<open>exit_and_clean_up and the main program\<close>

text \<open>How the process ends: the script runs to its last line, an exception reaches the top
  level, or \<open>sys.exit(v)\<close> is called.\<close>

datatype ending = Completed | Uncaught error | SystemExit pyval

text \<open>The exit status of the process. \<open>sys.exit\<close> takes \<open>None\<close> as status 0 and an integer as
  the status (the operating system keeps its low eight bits); any other object is printed and
  the status is 1. An uncaught exception ends the process with status 1.\<close>

fun exit_status :: "ending \<Rightarrow> int" where
  "exit_status Completed = 0"
| "exit_status (Uncaught e) = 1"
| "exit_status (SystemExit PyNone) = 0"
| "exit_status (SystemExit PyFalse) = 0"
| "exit_status (SystemExit (PyInt i)) = i mod 256"
| "exit_status (SystemExit v) = 1"

text \<open>\<open>"{}".format(exc_type)\<close> and \<open>"{}".format(exc_value)\<close> of lines 90 and 91, shortened to
  the name of the exception class and to the message (for an error of the operating system,
  the path it is about stands for the message).\<close>

fun exc_type :: "error \<Rightarrow> string" where
  "exc_type (AssertionError m) = ''exceptions.AssertionError''"
| "exc_type (Exception m) = ''exceptions.Exception''"
| "exc_type (IOError m) = ''exceptions.IOError''"
| "exc_type (OSError m) = ''exceptions.OSError''"
| "exc_type (ShutilError m) = ''shutil.Error''"
| "exc_type IndexError = ''exceptions.IndexError''"
| "exc_type AttributeError = ''exceptions.AttributeError''"

fun exc_message :: "error \<Rightarrow> string" where
  "exc_message (AssertionError m) = m"
| "exc_message (Exception m) = m"
| "exc_message (IOError m) = m"
| "exc_message (OSError m) = m"
| "exc_message (ShutilError m) = m"
| "exc_message IndexError = ''string index out of range''"
| "exc_message AttributeError = ''object has no attribute split''"

text \<open>\<open>exit_and_clean_up(temp_folder)\<close>, lines 77 to 92, called in a handler of the exception
  \<open>exc\<close>. The lines of the traceback are not modelled. When \<open>rmtree\<close> raises, that exception
  leaves the handler uncaught; otherwise \<open>sys.exit\<close> is called with the exception object.\<close>

definition exit_and_clean_up :: "path \<Rightarrow> error \<Rightarrow> world \<Rightarrow> ending \<times> world" where
  "exit_and_clean_up temp_folder exc w =
     (let w1 = info (''Removing temporary folder: '' @ temp_folder)
                 (info ''There was an unexpected failure'' w) in
      case rmtree (fs w1) temp_folder of
        Inl e \<Rightarrow> (Uncaught e, w1)
      | Inr f \<Rightarrow>
          (SystemExit (PyExc exc),
           info (''Exit code: '' @ exc_message exc)
             (info (''Exit type: '' @ exc_type exc) (w1\<lparr>fs := f\<rparr>))))"

text \<open>The parsed command line, lines 241 to 276.\<close>

record args =
  arg_input :: string
  arg_sample_name :: string
  arg_output_folder :: string
  arg_differences :: int
  arg_min_mass :: int
  arg_keep_abundance :: bool
  arg_temp_folder :: string

text \<open>Lines 280 to 300: the workspace is a new directory under the temporary root, named by
  the first eight characters \<open>uid\<close> of a random identifier, and the log file is opened in it.
  The result is the workspace and the path of the log file.\<close>

definition set_up :: "string \<Rightarrow> args \<Rightarrow> world \<Rightarrow> (error + path \<times> path) \<times> world" where
  "set_up uid a w =
     (let temp_folder = path_join (arg_temp_folder a) uid in
      if exists (fs w) temp_folder then (Inl (AssertionError []), w)
      else
        (case mkdir (fs w) temp_folder of
           Inl e \<Rightarrow> (Inl e, w)
         | Inr f1 \<Rightarrow>
             (let log_fp = path_join temp_folder (arg_sample_name a @ ''.log.txt'') in
              case open_append f1 log_fp of
                Inl e \<Rightarrow> (Inl e, w\<lparr>fs := f1\<rparr>)
              | Inr f2 \<Rightarrow> (Inr (temp_folder, log_fp), w\<lparr>fs := f2\<rparr>))))"

text \<open>Lines 324 to 335: the command line of the clustering tool.\<close>

definition swarm_command :: "args \<Rightarrow> path \<Rightarrow> path \<Rightarrow> path \<Rightarrow> string list" where
  "swarm_command a read_fps fasta_out csv_out =
     [''swarmwrapper'', ''cluster'', read_fps, ''-D'', ''-w'', fasta_out, ''-a'', csv_out,
      ''-d'', str_int (arg_differences a), ''-M'', str_int (arg_min_mass a)]
     @ (if arg_keep_abundance a then [''--keep-abundance''] else [])"

text \<open>Lines 346 to 348: each output file must exist and must not be empty.\<close>

fun check_outputs :: "path list \<Rightarrow> fsys \<Rightarrow> error + unit" where
  "check_outputs [] f = Inr ()"
| "check_outputs (fp # fps) f =
     (if \<not> exists f fp then Inl (AssertionError [])
      else
        (case st_size f fp of
           Inl e \<Rightarrow> Inl e
         | Inr n \<Rightarrow> if n > 0 then check_outputs fps f else Inl (AssertionError [])))"

text \<open>Lines 351 and 352: the results are returned one after the other; the first failure
  ends the loop.\<close>

fun return_all :: "system \<Rightarrow> path list \<Rightarrow> string \<Rightarrow> world \<Rightarrow> (error + unit) \<times> world" where
  "return_all sys [] output_folder w = (Inr (), w)"
| "return_all sys (fp # fps) output_folder w =
     (case return_results sys fp output_folder True w of
        (Inl e, w1) \<Rightarrow> (Inl e, w1)
      | (Inr _, w1) \<Rightarrow> return_all sys fps output_folder w1)"

text \<open>Lines 311 to 352, after the input was fetched to \<open>read_fps\<close>: the clustering tool is run
  inside \<open>try\<close>; the checks of the output files and the return of the results are outside
  any \<open>try\<close>. The time elapsed is not modelled.\<close>

definition cluster_and_publish ::
  "system \<Rightarrow> args \<Rightarrow> path \<Rightarrow> path \<Rightarrow> path \<Rightarrow> world \<Rightarrow> ending \<times> world" where
  "cluster_and_publish sys a temp_folder log_fp read_fps w =
     (let fasta_out = path_join temp_folder (arg_sample_name a @ ''.swarm.fasta'');
          csv_out = path_join temp_folder (arg_sample_name a @ ''.swarm.csv'');
          w1 = info (''CSV output: '' @ csv_out) (info (''FASTA output: '' @ fasta_out) w) in
      case run_cmds sys (swarm_command a read_fps fasta_out csv_out) 0 False None w1 of
        (Inl e, w2) \<Rightarrow> exit_and_clean_up temp_folder e w2
      | (Inr _, w2) \<Rightarrow>
          (let w3 = info ''Seconds elapsed: '' w2 in
           case check_outputs [fasta_out, csv_out] (fs w3) of
             Inl e \<Rightarrow> (Uncaught e, w3)
           | Inr _ \<Rightarrow>
               (case return_all sys [fasta_out, csv_out, log_fp] (arg_output_folder a) w3 of
                  (Inl e, w4) \<Rightarrow> (Uncaught e, w4)
                | (Inr _, w4) \<Rightarrow> (Completed, w4))))"

text \<open>The main program, lines 238 to 352.\<close>

definition main :: "system \<Rightarrow> string \<Rightarrow> args \<Rightarrow> world \<Rightarrow> ending \<times> world" where
  "main sys uid a w =
     (case set_up uid a w of
        (Inl e, w0) \<Rightarrow> (Uncaught e, w0)
      | (Inr (temp_folder, log_fp), w0) \<Rightarrow>
          (case get_reads_from_url sys (arg_input a) temp_folder
                  (info ''Fetching input file'' w0) of
             (Inl e, w1) \<Rightarrow> exit_and_clean_up temp_folder e w1
           | (Inr read_fps, w1) \<Rightarrow> cluster_and_publish sys a temp_folder log_fp read_fps w1))"

subsection \<open>What the shell and \<open>mv\<close> are taken to do\<close>







text \<open>\<open>keeps_dir sys d\<close>: no external program removes or replaces the directory \<open>d\<close>
  itself.\<close>

definition keeps_dir :: "system \<Rightarrow> path \<Rightarrow> bool" where
  "keeps_dir sys d = (\<forall>argv n f r. sys argv n f = Some r \<and> isdir f d \<longrightarrow> isdir (fs_after r) d)"

subsection \<open>Concrete systems and worlds for the examples\<close>

definition world0 :: world where
  "world0 = \<lparr>fs = [], clock = 0, log = []\<rparr>"

text \<open>A program that fails with status 1 on its first two executions, succeeds afterwards, and
  touches no file.\<close>

definition sys_flaky :: system where
  "sys_flaky argv n f = Some \<lparr>exitcode = (if n < 2 then 1 else 0), chunks = [], fs_after = f\<rparr>"

text \<open>A program that always fails with status 1.\<close>

definition sys_failing :: system where
  "sys_failing argv n f = Some \<lparr>exitcode = 1, chunks = [], fs_after = f\<rparr>"

text \<open>A program that writes to both streams, fails with status 3 when it is the first process
  launched and succeeds afterwards.\<close>

definition sys_noisy :: system where
  "sys_noisy argv n f =
     Some \<lparr>exitcode = (if n < 1 then 3 else 0),
           chunks = [(Out, ''reads''), (Err, ''warn'')], fs_after = f\<rparr>"

text \<open>A program that prints \<open>ok\<close> and succeeds.\<close>

definition sys_ok :: system where
  "sys_ok argv n f = Some \<lparr>exitcode = 0, chunks = [(Out, ''ok'')], fs_after = f\<rparr>"

text \<open>A program that always fails with status 3 and a message on standard error.\<close>

definition sys_exit3 :: system where
  "sys_exit3 argv n f = Some \<lparr>exitcode = 3, chunks = [(Err, ''failed'')], fs_after = f\<rparr>"

text \<open>A host on which the two copy tools fail, \<open>aws\<close> with status 4 and \<open>wget\<close> with status 8,
  \<open>pigz\<close> writes the file named by its last argument without the \<open>.gz\<close> suffix,
  \<open>fastq_to_fasta\<close> writes the file named by its last argument, and no other program is
  installed.\<close>

definition sys_tools :: system where
  "sys_tools argv n f =
     (if take 1 argv = [''aws''] then Some \<lparr>exitcode = 4, chunks = [], fs_after = f\<rparr>
      else if take 1 argv = [''wget''] then Some \<lparr>exitcode = 8, chunks = [], fs_after = f\<rparr>
      else if take 1 argv = [''pigz''] then
        Some \<lparr>exitcode = 0, chunks = [],
              fs_after = (take (length (last argv) - 3) (last argv), File ''@r1'') # f\<rparr>
      else if take 1 argv = [''fastq_to_fasta''] then
        Some \<lparr>exitcode = 0, chunks = [], fs_after = (last argv, File ''>r1'') # f\<rparr>
      else None)"

text \<open>A clustering tool that reports success, writes the FASTA output (its sixth argument) and
  leaves the CSV output (its eighth argument) empty.\<close>

definition sys_empty_csv :: system where
  "sys_empty_csv argv n f =
     Some \<lparr>exitcode = 0, chunks = [],
           fs_after = (if length argv > 7
                       then AList.update (argv ! 7) (File [])
                              (AList.update (argv ! 5) (File ''>otu1 ACGT'') f)
                       else f)\<rparr>"

text \<open>A host with the temporary root \<open>/share\<close> and a FASTA file of reads, and a command line
  that names that file.\<close>

definition world_local :: world where
  "world_local =
     \<lparr>fs = [(''/share'', Dir), (''/data'', Dir), (''/data/reads.fasta'', File ''>s1 ACGT'')],
      clock = 0, log = []\<rparr>"

definition args_local :: args where
  "args_local =
     \<lparr>arg_input = ''/data/reads.fasta'', arg_sample_name = ''S1'',
      arg_output_folder = ''/out'', arg_differences = 1, arg_min_mass = 1,
      arg_keep_abundance = False, arg_temp_folder = ''/share''\<rparr>"

text \<open>The files of that host once the workspace is made and the reads are copied into it.\<close>

definition fs_ready :: fsys where
  "fs_ready = [(''/share'', Dir), (''/data'', Dir),
         (''/data/reads.fasta'', File ''>s1 ACGT''), (''/share/0a1b2c3d'', Dir),
         (''/share/0a1b2c3d/S1.log.txt'', File []),
         (''/share/0a1b2c3d/reads.fasta'', File ''>s1 ACGT'')]"



section \<open>Properties\<close>

subsection \<open>Basic facts\<close>

lemma clock_info [simp]: "clock (info m w) = clock w"
  by (simp add: info_def)

lemma fs_info [simp]: "fs (info m w) = fs w"
  by (simp add: info_def)

lemma log_info [simp]: "log (info m w) = log w @ [m]"
  by (simp add: info_def)

lemma clock_infos [simp]: "clock (infos ms w) = clock w"
  by (simp add: infos_def)

lemma fs_infos [simp]: "fs (infos ms w) = fs w"
  by (simp add: infos_def)

lemma log_infos [simp]: "log (infos ms w) = log w @ ms"
  by (simp add: infos_def)

subsection \<open>One execution\<close>

lemma attempt_None_Some:
  "sys c (clock w) (fs w) = Some r \<Longrightarrow>
   \<exists>w'. attempt sys c None w = (Inr (exitcode r), w') \<and> clock w' = Suc (clock w)
        \<and> fs w' = fs_after r"
  by (simp add: attempt_def launch_def log_output_def)

lemma attempt_Some_Some:
  "open_wt (fs w) p = Inr f1 \<Longrightarrow> sys c (clock w) f1 = Some r \<Longrightarrow>
   \<exists>w'. attempt sys c (Some p) w = (Inr (exitcode r), w') \<and> clock w' = Suc (clock w)
        \<and> fs w' = write_fd (fs_after r) p (stream_text Out r)"
  by (simp add: attempt_def launch_def log_output_def)

lemma attempt_runs:
  assumes opens: "\<forall>p. stdout = Some p \<longrightarrow> (\<exists>f. open_wt (fs w) p = Inr f)"
    and runs: "\<forall>f. \<exists>r. sys c (clock w) f = Some r \<and> P (exitcode r)"
  shows "\<exists>code w'. attempt sys c stdout w = (Inr code, w') \<and> P code \<and> clock w' = Suc (clock w)"
proof (cases stdout)
  case None
  from runs obtain r where r: "sys c (clock w) (fs w) = Some r" "P (exitcode r)"
    by blast
  from attempt_None_Some[of sys c w r, OF r(1)] r(2) None show ?thesis
    by blast
next
  case (Some p)
  with opens obtain f1 where f1: "open_wt (fs w) p = Inr f1"
    by blast
  from runs obtain r where r: "sys c (clock w) f1 = Some r" "P (exitcode r)"
    by blast
  from attempt_Some_Some[of w p f1 sys c r, OF f1 r(1)] r(2) Some show ?thesis
    by blast
qed

subsection \<open>Retrying\<close>

lemma run_cmds_retry_None:
  "0 \<le> retry \<Longrightarrow>
   \<forall>i<N. \<forall>f. \<exists>r. sys c (clock w + i) f = Some r \<and> exitcode r \<noteq> 0 \<Longrightarrow>
   \<forall>f. \<exists>r. sys c (clock w + N) f = Some r \<and> exitcode r = 0 \<Longrightarrow>
   (int N \<le> retry \<longrightarrow> fst (run_cmds sys c retry False None w) = Inr PyNone) \<and>
   (retry < int N \<longrightarrow> (\<exists>n. n \<noteq> 0 \<and>
       fst (run_cmds sys c retry False None w) = Inl (AssertionError (''Exit code '' @ str_int n))))"
proof (induction N arbitrary: retry w)
  case 0
  then obtain r where r: "sys c (clock w) (fs w) = Some r" "exitcode r = 0"
    by (metis add.right_neutral)
  from attempt_None_Some[of sys c w r, OF r(1)]
  obtain w' where "attempt sys c None w = (Inr (exitcode r), w')"
    by blast
  with r(2) 0 show ?case
    by (simp add: run_cmds.simps[of sys c retry False None w])
next
  case (Suc N)
  from Suc.prems(2) obtain r where r: "sys c (clock w) (fs w) = Some r" "exitcode r \<noteq> 0"
    by (metis add.right_neutral zero_less_Suc)
  from attempt_None_Some[of sys c w r, OF r(1)] obtain w' where
    w': "attempt sys c None w = (Inr (exitcode r), w')" "clock w' = Suc (clock w)"
    by blast
  show ?case
  proof (cases "0 < retry")
    case True
    define w2 where "w2 = info (''Exit code '' @ str_int (exitcode r) @ '', retrying ''
                             @ str_int retry @ '' more times'') w'"
    have ck: "clock w2 = Suc (clock w)"
      by (simp add: w2_def w')
    have a: "0 \<le> retry - 1"
      using True by simp
    have b: "\<forall>i<N. \<forall>f. \<exists>r. sys c (clock w2 + i) f = Some r \<and> exitcode r \<noteq> 0"
    proof (intro allI impI)
      fix i f assume "i < N"
      then have "Suc i < Suc N" by simp
      with Suc.prems(2) have "\<exists>r. sys c (clock w + Suc i) f = Some r \<and> exitcode r \<noteq> 0"
        by blast
      then show "\<exists>r. sys c (clock w2 + i) f = Some r \<and> exitcode r \<noteq> 0"
        by (simp add: ck)
    qed
    have d: "\<forall>f. \<exists>r. sys c (clock w2 + N) f = Some r \<and> exitcode r = 0"
      using Suc.prems(3) by (simp add: ck)
    note ih = Suc.IH[OF a b d]
    have unf: "run_cmds sys c retry False None w =
      (case run_cmds sys c (retry - 1) False None w2 of
         (Inl e, w2) \<Rightarrow> (Inl e, w2)
       | (Inr _, w2) \<Rightarrow> (Inr PyNone, w2))"
      using True r(2) by (simp add: run_cmds.simps[of sys c retry False None w] w' w2_def)
    show ?thesis
    proof (intro conjI impI)
      assume "int (Suc N) \<le> retry"
      then have "int N \<le> retry - 1" by simp
      with ih have "fst (run_cmds sys c (retry - 1) False None w2) = Inr PyNone"
        by blast
      then show "fst (run_cmds sys c retry False None w) = Inr PyNone"
        by (cases "run_cmds sys c (retry - 1) False None w2") (auto simp add: unf)
    next
      assume "retry < int (Suc N)"
      then have "retry - 1 < int N" by simp
      with ih obtain n where "n \<noteq> 0"
        "fst (run_cmds sys c (retry - 1) False None w2)
           = Inl (AssertionError (''Exit code '' @ str_int n))"
        by blast
      then show "\<exists>n. n \<noteq> 0 \<and>
        fst (run_cmds sys c retry False None w) = Inl (AssertionError (''Exit code '' @ str_int n))"
        by (cases "run_cmds sys c (retry - 1) False None w2") (auto simp add: unf)
    qed
  next
    case False
    have "run_cmds sys c retry False None w =
            (Inl (AssertionError (''Exit code '' @ str_int (exitcode r))), w')"
      using False r(2) w' by (simp add: run_cmds.simps[of sys c retry False None w])
    moreover have "\<not> int (Suc N) \<le> retry"
      using False by simp
    ultimately show ?thesis
      using r(2) by auto
  qed
qed

text \<open>
  Claim C4. A command that exits non-zero on its first \<open>N\<close> executions and zero on execution
  \<open>N + 1\<close> (counted from the call, whatever the file system it meets), run with
  \<open>catchExcept=False\<close> and a retry budget \<open>retry \<ge> 0\<close>: with \<open>retry \<ge> N\<close> the call returns
  without raising, and with \<open>retry < N\<close> it raises the assertion error that carries a non-zero
  exit code. The same holds with a redirect path that can be opened.
\<close>

theorem run_cmds_fails_N_times_then_succeeds:
  assumes budget: "0 \<le> retry"
    and opens: "\<forall>p. stdout = Some p \<longrightarrow> (\<exists>f. open_wt (fs w) p = Inr f)"
    and fails: "\<forall>i<N. \<forall>f. \<exists>r. sys c (clock w + i) f = Some r \<and> exitcode r \<noteq> 0"
    and succeeds: "\<forall>f. \<exists>r. sys c (clock w + N) f = Some r \<and> exitcode r = 0"
  shows "(int N \<le> retry \<longrightarrow> fst (run_cmds sys c retry False stdout w) = Inr PyNone) \<and>
         (retry < int N \<longrightarrow> (\<exists>n. n \<noteq> 0 \<and>
            fst (run_cmds sys c retry False stdout w)
              = Inl (AssertionError (''Exit code '' @ str_int n))))"
proof (cases N)
  case 0
  with succeeds have "\<forall>f. \<exists>r. sys c (clock w) f = Some r \<and> exitcode r = 0"
    by simp
  from attempt_runs[of stdout w sys c "\<lambda>k. k = 0", OF opens this]
  obtain code w' where "attempt sys c stdout w = (Inr code, w')" "code = 0"
    by blast
  with 0 budget show ?thesis
    by (simp add: run_cmds.simps[of sys c retry False stdout w])
next
  case (Suc M)
  with fails have "\<forall>f. \<exists>r. sys c (clock w) f = Some r \<and> exitcode r \<noteq> 0"
    by (metis add.right_neutral zero_less_Suc)
  from attempt_runs[of stdout w sys c "\<lambda>k. k \<noteq> 0", OF opens this]
  obtain code w' where
    w': "attempt sys c stdout w = (Inr code, w')" "code \<noteq> 0" "clock w' = Suc (clock w)"
    by blast
  show ?thesis
  proof (cases "0 < retry")
    case True
    define w2 where "w2 = info (''Exit code '' @ str_int code @ '', retrying ''
                             @ str_int retry @ '' more times'') w'"
    have ck: "clock w2 = Suc (clock w)"
      by (simp add: w2_def w')
    have a: "0 \<le> retry - 1"
      using True by simp
    have b: "\<forall>i<M. \<forall>f. \<exists>r. sys c (clock w2 + i) f = Some r \<and> exitcode r \<noteq> 0"
    proof (intro allI impI)
      fix i f assume "i < M"
      then have "Suc i < N" by (simp add: Suc)
      with fails have "\<exists>r. sys c (clock w + Suc i) f = Some r \<and> exitcode r \<noteq> 0"
        by blast
      then show "\<exists>r. sys c (clock w2 + i) f = Some r \<and> exitcode r \<noteq> 0"
        by (simp add: ck)
    qed
    have d: "\<forall>f. \<exists>r. sys c (clock w2 + M) f = Some r \<and> exitcode r = 0"
      using succeeds by (simp add: ck Suc)
    note rest = run_cmds_retry_None[of "retry - 1" M sys c w2, OF a b d]
    have unf: "run_cmds sys c retry False stdout w =
      (case run_cmds sys c (retry - 1) False None w2 of
         (Inl e, w2) \<Rightarrow> (Inl e, w2)
       | (Inr _, w2) \<Rightarrow> (Inr PyNone, w2))"
      using True w' by (simp add: run_cmds.simps[of sys c retry False stdout w] w2_def)
    show ?thesis
    proof (intro conjI impI)
      assume "int N \<le> retry"
      then have "int M \<le> retry - 1" by (simp add: Suc)
      with rest have "fst (run_cmds sys c (retry - 1) False None w2) = Inr PyNone"
        by blast
      then show "fst (run_cmds sys c retry False stdout w) = Inr PyNone"
        by (cases "run_cmds sys c (retry - 1) False None w2") (auto simp add: unf)
    next
      assume "retry < int N"
      then have "retry - 1 < int M" by (simp add: Suc)
      with rest obtain n where "n \<noteq> 0"
        "fst (run_cmds sys c (retry - 1) False None w2)
           = Inl (AssertionError (''Exit code '' @ str_int n))"
        by blast
      then show "\<exists>n. n \<noteq> 0 \<and>
        fst (run_cmds sys c retry False stdout w)
          = Inl (AssertionError (''Exit code '' @ str_int n))"
        by (cases "run_cmds sys c (retry - 1) False None w2") (auto simp add: unf)
    qed
  next
    case False
    have "run_cmds sys c retry False stdout w =
            (Inl (AssertionError (''Exit code '' @ str_int code)), w')"
      using False w' by (simp add: run_cmds.simps[of sys c retry False stdout w])
    moreover have "\<not> int N \<le> retry"
      using False by (simp add: Suc)
    ultimately show ?thesis
      using w'(2) by auto
  qed
qed

theorem run_cmds_fails_N_times_then_succeeds_witness:
  "fst (run_cmds sys_flaky [''fetch''] 2 False None world0) = Inr PyNone \<and>
   (\<exists>n. n \<noteq> 0 \<and> fst (run_cmds sys_flaky [''fetch''] 1 False None world0)
       = Inl (AssertionError (''Exit code '' @ str_int n)))"
proof -
  have fails: "\<forall>i<2. \<forall>f. \<exists>r. sys_flaky [''fetch''] (clock world0 + i) f = Some r \<and> exitcode r \<noteq> 0"
    by (simp add: sys_flaky_def world0_def)
  have succeeds: "\<forall>f. \<exists>r. sys_flaky [''fetch''] (clock world0 + 2) f = Some r \<and> exitcode r = 0"
    by (simp add: sys_flaky_def world0_def)
  have opens: "\<forall>p. (None :: path option) = Some p \<longrightarrow> (\<exists>f. open_wt (fs world0) p = Inr f)"
    by simp
  from run_cmds_fails_N_times_then_succeeds[of 2 None world0 2 sys_flaky "[''fetch'']",
      OF _ opens fails succeeds]
    run_cmds_fails_N_times_then_succeeds[of 1 None world0 2 sys_flaky "[''fetch'']",
      OF _ opens fails succeeds]
  show ?thesis
    by simp
qed

subsection \<open>The log and the files during \<open>run_cmds\<close>\<close>

lemmas run_eval = run_cmds.simps attempt_def launch_def log_output_def combined_text_def
  stream_text_def str_int_def str_nat.simps info_def infos_def

lemma log_output_Inr:
  "log_output t v w = Inr w' \<Longrightarrow> prefix (log w) (log w') \<and> fs w' = fs w \<and> clock w' = clock w"
  by (auto simp: log_output_def split: if_splits pyval.splits)

lemma launch_log: "launch sys c so w = (x, w') \<Longrightarrow> log w' = log w"
  by (auto simp: launch_def split: option.splits sum.splits)

lemma attempt_log_prefix: "attempt sys c so w = (x, w') \<Longrightarrow> prefix (log w) (log w')"
  by (auto simp: attempt_def split: prod.splits sum.splits
      dest!: launch_log log_output_Inr) (meson append_prefixD prefix_order.trans)+

lemma run_cmds_value: "fst (run_cmds sys c retry ce so w) = Inr v \<Longrightarrow> v = PyNone"
  by (subst (asm) run_cmds.simps) (auto split: prod.splits sum.splits if_splits)

lemma run_cmds_log_prefix: "prefix (log w) (log (snd (run_cmds sys c retry ce so w)))"
proof (induction sys c retry ce so w rule: run_cmds.induct)
  case (1 sys commands retry catchExcept stdout w)
  obtain x w1 where a: "attempt sys commands stdout w = (x, w1)"
    by (cases "attempt sys commands stdout w")
  then have p: "prefix (log w) (log w1)"
    by (rule attempt_log_prefix)
  show ?case
  proof (cases x)
    case (Inl e)
    with a p show ?thesis
      by (simp add: run_cmds.simps[of sys commands retry catchExcept stdout w])
  next
    case (Inr code)
    let ?w2 = "info (''Exit code '' @ str_int code @ '', retrying ''
                       @ str_int retry @ '' more times'') w1"
    show ?thesis
    proof (cases "code \<noteq> 0 \<and> retry > 0")
      case True
      with 1[OF a[symmetric, unfolded Inr] refl]
      have "prefix (log ?w2) (log (snd (run_cmds sys commands (retry - 1) False None ?w2)))"
        by simp
      then have "prefix (log w1) (log (snd (run_cmds sys commands (retry - 1) False None ?w2)))"
        by (auto dest: append_prefixD)
      with p have "prefix (log w) (log (snd (run_cmds sys commands (retry - 1) False None ?w2)))"
        by (rule prefix_order.trans)
      with True a Inr show ?thesis
        by (auto simp add: run_cmds.simps[of sys commands retry catchExcept stdout w]
            split: prod.splits sum.splits)
    next
      case False
      with a Inr p show ?thesis
        by (auto simp add: run_cmds.simps[of sys commands retry catchExcept stdout w]
            intro: prefix_order.trans)
    qed
  qed
qed

lemma attempt_None_eq:
  "sys c (clock w) (fs w) = Some r \<Longrightarrow>
   attempt sys c None w =
     (Inr (exitcode r),
      \<lparr>fs = fs_after r, clock = Suc (clock w),
       log = log w @ [''Commands:'', join_with '' '' c]
             @ (if combined_text r = [] then []
                else ''Standard output of subprocess:'' # split_on CHR 0x0A (combined_text r))\<rparr>)"
  by (simp add: attempt_def launch_def log_output_def info_def infos_def)

lemma attempt_Some_eq:
  "open_wt (fs w) p = Inr f1 \<Longrightarrow> sys c (clock w) f1 = Some r \<Longrightarrow>
   attempt sys c (Some p) w =
     (Inr (exitcode r),
      \<lparr>fs = write_fd (fs_after r) p (stream_text Out r), clock = Suc (clock w),
       log = log w @ [''Commands:'', join_with '' '' c]
             @ (if stream_text Err r = [] then []
                else ''Standard error of subprocess:'' # split_on CHR 0x0A (stream_text Err r))\<rparr>)"
  by (simp add: attempt_def launch_def log_output_def info_def infos_def)

lemma attempt_None_frame:
  "\<forall>n f r'. sys c n f = Some r' \<longrightarrow> map_of (fs_after r') p = map_of f p \<Longrightarrow>
   attempt sys c None w = (x, w1) \<Longrightarrow> map_of (fs w1) p = map_of (fs w) p"
  by (auto simp: attempt_def launch_def log_output_def split: option.splits if_splits)

lemma run_cmds_None_frame:
  "\<forall>n f r'. sys c n f = Some r' \<longrightarrow> map_of (fs_after r') p = map_of f p \<Longrightarrow> so = None \<Longrightarrow>
   map_of (fs (snd (run_cmds sys c retry ce so w))) p = map_of (fs w) p"
proof (induction sys c retry ce so w rule: run_cmds.induct)
  case (1 sys commands retry catchExcept stdout w)
  obtain x w1 where a: "attempt sys commands stdout w = (x, w1)"
    by (cases "attempt sys commands stdout w")
  with 1(2,3) have fr: "map_of (fs w1) p = map_of (fs w) p"
    by (auto dest: attempt_None_frame)
  show ?case
  proof (cases x)
    case (Inl e)
    with a fr show ?thesis
      by (simp add: run_cmds.simps[of sys commands retry catchExcept stdout w])
  next
    case (Inr code)
    let ?w2 = "info (''Exit code '' @ str_int code @ '', retrying ''
                       @ str_int retry @ '' more times'') w1"
    show ?thesis
    proof (cases "code \<noteq> 0 \<and> retry > 0")
      case True
      with 1(1)[OF a[symmetric, unfolded Inr] refl _ 1(2)]
      have "map_of (fs (snd (run_cmds sys commands (retry - 1) False None ?w2))) p
              = map_of (fs w1) p"
        by simp
      with True a Inr fr show ?thesis
        by (auto simp add: run_cmds.simps[of sys commands retry catchExcept stdout w]
            split: prod.splits sum.splits)
    next
      case False
      with a Inr fr show ?thesis
        by (auto simp add: run_cmds.simps[of sys commands retry catchExcept stdout w])
    qed
  qed
qed

lemma run_cmds_attempt_log:
  assumes a: "attempt sys c so w = (x, w1)"
  shows "prefix (log w1) (log (snd (run_cmds sys c retry ce so w)))"
proof -
  let ?m = "''Exit code '' @ str_int (projr x) @ '', retrying '' @ str_int retry @ '' more times''"
  have "prefix (log (info ?m w1)) (log (snd (run_cmds sys c (retry - 1) False None (info ?m w1))))"
    by (rule run_cmds_log_prefix)
  then have "prefix (log w1) (log (snd (run_cmds sys c (retry - 1) False None (info ?m w1))))"
    by (auto dest: append_prefixD)
  with a show ?thesis
    by (cases x)
      (auto simp add: run_cmds.simps[of sys c retry ce so w] split: prod.splits sum.splits)
qed

text \<open>
  Claim C10. A call with a redirect path \<open>p\<close> and \<open>retry > 0\<close> whose first execution exits
  non-zero continues as the call \<open>run_cmds(commands, retry - 1)\<close>: without the redirect path
  and with \<open>catchExcept=False\<close>, whatever \<open>catchExcept\<close> was. The log then holds, after the
  first execution (whose standard output is not logged) and the retry message, the combined
  output of the second execution; and when the program itself leaves \<open>p\<close> alone, the file
  \<open>p\<close> holds at the end the standard output of the first, failed execution only.
\<close>

theorem run_cmds_retry_drops_redirect:
  assumes retry: "0 < retry"
    and opens: "open_wt (fs w) p = Inr f1"
    and first: "sys c (clock w) f1 = Some r" "exitcode r \<noteq> 0"
    and second: "sys c (Suc (clock w)) (write_fd (fs_after r) p (stream_text Out r)) = Some r2"
    and frame: "\<forall>n f r'. sys c n f = Some r' \<longrightarrow> map_of (fs_after r') p = map_of f p"
  shows "run_cmds sys c retry catchExcept (Some p) w =
           (case run_cmds sys c (retry - 1) False None
                   (info (''Exit code '' @ str_int (exitcode r) @ '', retrying ''
                            @ str_int retry @ '' more times'')
                      (snd (attempt sys c (Some p) w))) of
              (Inl e, w2) \<Rightarrow> (Inl e, w2)
            | (Inr v, w2) \<Rightarrow> (Inr PyNone, w2))
         \<and> map_of (fs (snd (run_cmds sys c retry catchExcept (Some p) w))) p
             = Some (File (stream_text Out r))
         \<and> prefix
             (log w @ [''Commands:'', join_with '' '' c]
                @ (if stream_text Err r = [] then []
                   else ''Standard error of subprocess:'' # split_on CHR 0x0A (stream_text Err r))
                @ [''Exit code '' @ str_int (exitcode r) @ '', retrying ''
                     @ str_int retry @ '' more times'',
                   ''Commands:'', join_with '' '' c]
                @ (if combined_text r2 = [] then []
                   else ''Standard output of subprocess:''
                          # split_on CHR 0x0A (combined_text r2)))
             (log (snd (run_cmds sys c retry catchExcept (Some p) w)))"
proof -
  let ?msg = "''Exit code '' @ str_int (exitcode r) @ '', retrying ''
                @ str_int retry @ '' more times''"
  let ?w1 = "snd (attempt sys c (Some p) w)"
  let ?w2 = "info ?msg ?w1"
  let ?rest = "run_cmds sys c (retry - 1) False None ?w2"
  note a = attempt_Some_eq[where sys=sys and c=c, OF opens first(1)]
  have unf: "run_cmds sys c retry catchExcept (Some p) w =
     (case ?rest of (Inl e, w2) \<Rightarrow> (Inl e, w2) | (Inr v, w2) \<Rightarrow> (Inr PyNone, w2))"
    using retry first(2) by (simp add: run_cmds.simps[of sys c retry catchExcept "Some p" w] a)
  have snd_eq: "snd (run_cmds sys c retry catchExcept (Some p) w) = snd ?rest"
    by (cases ?rest) (auto simp: unf split: sum.splits)
  have "map_of f1 p = Some (File [])"
    using opens by (auto simp: open_wt_def AList.update_conv' split: if_splits)
  with frame first(1) have "map_of (fs_after r) p = Some (File [])"
    by metis
  then have file1: "map_of (fs ?w1) p = Some (File (stream_text Out r))"
    by (simp add: a write_fd_def AList.update_conv')
  have "map_of (fs (snd ?rest)) p = map_of (fs ?w2) p"
    using frame by (rule run_cmds_None_frame) simp
  with file1 have c2: "map_of (fs (snd (run_cmds sys c retry catchExcept (Some p) w))) p
             = Some (File (stream_text Out r))"
    by (simp add: snd_eq)
  have s2: "sys c (clock ?w2) (fs ?w2) = Some r2"
    using second by (simp add: a)
  from run_cmds_attempt_log[OF attempt_None_eq[where sys=sys and c=c, OF s2], of "retry - 1" False]
  have c3: "prefix
             (log w @ [''Commands:'', join_with '' '' c]
                @ (if stream_text Err r = [] then []
                   else ''Standard error of subprocess:'' # split_on CHR 0x0A (stream_text Err r))
                @ [?msg, ''Commands:'', join_with '' '' c]
                @ (if combined_text r2 = [] then []
                   else ''Standard output of subprocess:''
                          # split_on CHR 0x0A (combined_text r2)))
             (log (snd (run_cmds sys c retry catchExcept (Some p) w)))"
    by (simp add: snd_eq a)
  from unf c2 c3 show ?thesis
    by blast
qed

theorem run_cmds_retry_drops_redirect_witness:
  "map_of (fs (snd (run_cmds sys_noisy [''dump''] 1 True (Some ''out.txt'') world0))) ''out.txt''
     = Some (File ''reads'')
   \<and> prefix [''Commands:'', ''dump'', ''Standard error of subprocess:'', ''warn'',
             ''Exit code 3, retrying 1 more times'', ''Commands:'', ''dump'',
             ''Standard output of subprocess:'', ''readswarn'']
        (log (snd (run_cmds sys_noisy [''dump''] 1 True (Some ''out.txt'') world0)))"
proof -
  have opens: "open_wt (fs world0) ''out.txt'' = Inr [(''out.txt'', File [])]"
    by (simp add: open_wt_def parent_ok_def dirname_def isdir_def world0_def)
  have first: "sys_noisy [''dump''] (clock world0) [(''out.txt'', File [])]
      = Some \<lparr>exitcode = 3, chunks = [(Out, ''reads''), (Err, ''warn'')],
              fs_after = [(''out.txt'', File [])]\<rparr>"
    by (simp add: sys_noisy_def world0_def)
  have second: "sys_noisy [''dump''] (Suc (clock world0))
       (write_fd (fs_after \<lparr>exitcode = 3, chunks = [(Out, ''reads''), (Err, ''warn'')],
              fs_after = [(''out.txt'', File [])]\<rparr>) ''out.txt''
          (stream_text Out \<lparr>exitcode = 3, chunks = [(Out, ''reads''), (Err, ''warn'')],
              fs_after = [(''out.txt'', File [])]\<rparr>))
      = Some \<lparr>exitcode = 0, chunks = [(Out, ''reads''), (Err, ''warn'')],
              fs_after = [(''out.txt'', File ''reads'')]\<rparr>"
    by (simp add: sys_noisy_def world0_def write_fd_def stream_text_def)
  have frame: "\<forall>n f r'. sys_noisy [''dump''] n f = Some r'
      \<longrightarrow> map_of (fs_after r') ''out.txt'' = map_of f ''out.txt''"
    by (auto simp: sys_noisy_def)
  from run_cmds_retry_drops_redirect[where sys=sys_noisy and c="[''dump'']" and retry=1
      and catchExcept=True, OF _ opens first _ second frame, THEN conjunct2]
  show ?thesis
    by (simp add: stream_text_def combined_text_def str_int_def str_nat.simps world0_def)
qed

text \<open>
  Claim C3, evaluated where it fails. With \<open>catchExcept=True\<close>, \<open>retry=1\<close> and a command that
  always exits with status 1, the call raises the assertion error of line 50 instead of
  returning: the retried call of line 45 does not get the flag. With \<open>retry=0\<close> the same
  command is tolerated.
\<close>

theorem run_cmds_tolerance_lost_after_retry:
  "fst (run_cmds sys_failing [''false''] 1 True None world0)
     = Inl (AssertionError ''Exit code 1'')
   \<and> fst (run_cmds sys_failing [''false''] 0 True None world0) = Inr PyNone"
  by (simp add: run_eval sys_failing_def world0_def)

text \<open>
  Claim C7 as stated fails: a successful call without a redirect path returns \<open>None\<close>, not
  the pair of the exit status and the output.
\<close>

theorem run_cmds_returns_pair_counterexample:
  "fst (run_cmds sys_ok [''echo'', ''ok''] 0 False None world0)
     \<noteq> Inr (PyTuple [PyInt 0, PyStr ''ok''])"
  by (simp add: run_eval sys_ok_def world0_def)

text \<open>
  Claim C7, amended. \<open>run_cmds\<close> returns no value: whenever it returns, the result is \<open>None\<close>.
  The exit status and the output exist as local variables only: without a redirect path the
  variable \<open>stdout\<close> is the combined text of both streams and \<open>stderr\<close> is \<open>None\<close>; with a
  redirect path \<open>stdout\<close> is replaced by \<open>False\<close>, \<open>stderr\<close> is the text of standard error and
  standard output is in the file.
\<close>

theorem run_cmds_returns_no_value:
  "(\<forall>v. fst (run_cmds sys c retry ce so w) = Inr v \<longrightarrow> v = PyNone)
   \<and> (\<forall>r. sys c (clock w) (fs w) = Some r \<longrightarrow>
          fst (launch sys c None w) = Inr (exitcode r, PyStr (combined_text r), PyNone))
   \<and> (\<forall>p f1 r. open_wt (fs w) p = Inr f1 \<and> sys c (clock w) f1 = Some r \<longrightarrow>
          fst (launch sys c (Some p) w) = Inr (exitcode r, PyFalse, PyStr (stream_text Err r))
          \<and> fs (snd (launch sys c (Some p) w)) = write_fd (fs_after r) p (stream_text Out r))"
  by (auto simp: launch_def dest: run_cmds_value)

theorem run_cmds_returns_no_value_witness:
  "fst (run_cmds sys_ok [''echo'', ''ok''] 0 False None world0) = Inr PyNone
   \<and> fst (launch sys_ok [''echo'', ''ok''] None world0) = Inr (0, PyStr ''ok'', PyNone)
   \<and> fst (launch sys_ok [''echo'', ''ok''] (Some ''out.txt'') world0) = Inr (0, PyFalse, PyStr [])
   \<and> fs (snd (launch sys_ok [''echo'', ''ok''] (Some ''out.txt'') world0))
        = [(''out.txt'', File ''ok'')]"
proof -
  have ex: "\<exists>v. fst (run_cmds sys_ok [''echo'', ''ok''] 0 False None world0) = Inr v"
    by (simp add: run_eval sys_ok_def world0_def)
  have opens: "open_wt (fs world0) ''out.txt'' = Inr [(''out.txt'', File [])]"
    by (simp add: open_wt_def parent_ok_def dirname_def isdir_def world0_def)
  have s1: "sys_ok [''echo'', ''ok''] (clock world0) (fs world0)
      = Some \<lparr>exitcode = 0, chunks = [(Out, ''ok'')], fs_after = []\<rparr>"
    by (simp add: sys_ok_def world0_def)
  have s2: "sys_ok [''echo'', ''ok''] (clock world0) [(''out.txt'', File [])]
      = Some \<lparr>exitcode = 0, chunks = [(Out, ''ok'')], fs_after = [(''out.txt'', File [])]\<rparr>"
    by (simp add: sys_ok_def world0_def)
  note t = run_cmds_returns_no_value[of sys_ok "[''echo'', ''ok'']" 0 False None world0]
  from t ex have a: "fst (run_cmds sys_ok [''echo'', ''ok''] 0 False None world0) = Inr PyNone"
    by blast
  from t s1
  have b: "fst (launch sys_ok [''echo'', ''ok''] None world0) = Inr (0, PyStr ''ok'', PyNone)"
    by (simp add: combined_text_def)
  from t opens s2
  have c: "fst (launch sys_ok [''echo'', ''ok''] (Some ''out.txt'') world0)
        = Inr (0, PyFalse, PyStr [])
      \<and> fs (snd (launch sys_ok [''echo'', ''ok''] (Some ''out.txt'') world0))
        = [(''out.txt'', File ''ok'')]"
    by (simp add: stream_text_def write_fd_def)
  from a b c show ?thesis
    by simp
qed

subsection \<open>The format steps\<close>


lemma attempt_log_command_prefix:
  "attempt sys c so w = (x, w1) \<Longrightarrow> prefix (log w @ [''Commands:'', join_with '' '' c]) (log w1)"
  by (auto simp: attempt_def split: prod.splits sum.splits
      dest!: launch_log log_output_Inr)

lemma attempt_logs_command:
  "attempt sys c so w = (x, w1) \<Longrightarrow> join_with '' '' c \<in> set (log w1)"
  using attempt_log_command_prefix[of sys c so w x w1] set_mono_prefix by fastforce

lemma run_cmds_logs_command:
  "join_with '' '' c \<in> set (log (snd (run_cmds sys c retry ce so w)))"
proof -
  obtain x w1 where a: "attempt sys c so w = (x, w1)"
    by (cases "attempt sys c so w")
  from attempt_logs_command[OF a] run_cmds_attempt_log[OF a, of retry ce]
  show ?thesis
    by (auto dest: set_mono_prefix)
qed

lemma run_cmds_once_ok:
  "sys c (clock w) (fs w) = Some r \<Longrightarrow> exitcode r = 0 \<Longrightarrow>
   \<exists>w'. run_cmds sys c retry ce None w = (Inr PyNone, w')"
  by (simp add: run_cmds.simps[of sys c retry ce None w] attempt_None_eq[where sys=sys and c=c])

lemma run_cmds_all_ok:
  assumes "\<forall>c n f. \<exists>r. sys c n f = Some r \<and> exitcode r = 0"
  shows "\<exists>w'. run_cmds sys c retry ce None w = (Inr PyNone, w')"
proof -
  from assms obtain r where "sys c (clock w) (fs w) = Some r" "exitcode r = 0"
    by blast
  then show ?thesis
    by (rule run_cmds_once_ok)
qed

lemma run_cmds_Inr: "run_cmds sys c retry ce so w = (Inr v, w') \<Longrightarrow> v = PyNone"
  using run_cmds_value[of sys c retry ce so w v] by simp

lemma convert_reads_Inr:
  assumes "convert_reads sys d w = (Inr p, w')" "d \<noteq> []" "last d = CHR ''q'' \<or> last d = CHR ''Q''"
  shows "p = butlast d @ ''a'' \<and>
         join_with '' '' [''fastq_to_fasta'', ''-i'', d, ''-o'', p] \<in> set (log w')"
proof -
  let ?c = "[''fastq_to_fasta'', ''-i'', d, ''-o'', butlast d @ ''a'']"
  let ?run = "run_cmds sys ?c 0 False None (info ''Converting to FASTA'' w)"
  from assms have "p = butlast d @ ''a''" "w' = snd ?run"
    by (auto simp: convert_reads_def split: prod.splits sum.splits)
  with run_cmds_logs_command[of ?c sys 0 False None "info ''Converting to FASTA'' w"]
  show ?thesis
    by simp
qed

lemma convert_reads_ok:
  assumes "\<forall>c n f. \<exists>r. sys c n f = Some r \<and> exitcode r = 0"
    and "d \<noteq> []" "last d = CHR ''q'' \<or> last d = CHR ''Q''"
  shows "\<exists>w'. convert_reads sys d w = (Inr (butlast d @ ''a''), w')"
proof -
  from run_cmds_all_ok[OF assms(1)] obtain w' where
    "run_cmds sys [''fastq_to_fasta'', ''-i'', d, ''-o'', butlast d @ ''a''] 0 False None
       (info ''Converting to FASTA'' w) = (Inr PyNone, w')"
    by blast
  with assms(2,3) show ?thesis
    by (simp add: convert_reads_def)
qed

lemma decompress_reads_Inr:
  "decompress_reads sys lp w = (Inr d, w1) \<Longrightarrow>
   d = (if endswith lp ''.gz'' then take (length lp - 3) lp else lp)"
  by (auto simp: decompress_reads_def split: if_splits prod.splits sum.splits)

lemma decompress_reads_ok:
  assumes "\<forall>c n f. \<exists>r. sys c n f = Some r \<and> exitcode r = 0"
  shows "\<exists>w1. decompress_reads sys lp w =
           (Inr (if endswith lp ''.gz'' then take (length lp - 3) lp else lp), w1)"
proof -
  from run_cmds_all_ok[OF assms] obtain w' where
    "run_cmds sys [''pigz'', ''-d'', lp] 0 False None (info (''Decompressing '' @ lp) w)
       = (Inr PyNone, w')"
    by blast
  then show ?thesis
    by (simp add: decompress_reads_def)
qed

text \<open>
  One execution without retries, tolerance or redirection, as every call in the fetching and
  format steps is: the outcome is decided by the exit status of the process that the system
  starts on this command line, and the world afterwards is the one this process left.
\<close>

lemma run_cmds_once:
  "sys c (clock w) (fs w) = Some r \<Longrightarrow>
   run_cmds sys c 0 False None w =
     (if exitcode r = 0 then Inr PyNone
      else Inl (AssertionError (''Exit code '' @ str_int (exitcode r))),
      \<lparr>fs = fs_after r, clock = Suc (clock w),
       log = log w @ [''Commands:'', join_with '' '' c]
             @ (if combined_text r = [] then []
                else ''Standard output of subprocess:'' # split_on CHR 0x0A (combined_text r))\<rparr>)"
  by (simp add: run_cmds.simps[of sys c 0 False None w] attempt_None_eq[where sys=sys and c=c])

lemma run_cmds_not_launched:
  "sys c (clock w) (fs w) = None \<Longrightarrow>
   run_cmds sys c 0 False None w =
     (Inl (OSError (join_with '' '' c)),
      \<lparr>fs = fs w, clock = Suc (clock w), log = log w @ [''Commands:'', join_with '' '' c]\<rparr>)"
  by (simp add: run_cmds.simps[of sys c 0 False None w] attempt_def launch_def info_def)

lemma convert_reads_launches:
  assumes "d \<noteq> []" "last d = CHR ''q'' \<or> last d = CHR ''Q''"
  shows "(\<forall>r. sys [''fastq_to_fasta'', ''-i'', d, ''-o'', butlast d @ ''a''] (clock w) (fs w)
               = Some r \<longrightarrow>
            fst (convert_reads sys d w)
              = (if exitcode r = 0 then Inr (butlast d @ ''a'')
                 else Inl (AssertionError (''Exit code '' @ str_int (exitcode r))))
            \<and> fs (snd (convert_reads sys d w)) = fs_after r
            \<and> clock (snd (convert_reads sys d w)) = Suc (clock w))
         \<and> (sys [''fastq_to_fasta'', ''-i'', d, ''-o'', butlast d @ ''a''] (clock w) (fs w) = None
              \<longrightarrow> fst (convert_reads sys d w)
                    = Inl (OSError (join_with '' ''
                             [''fastq_to_fasta'', ''-i'', d, ''-o'', butlast d @ ''a'']))
                  \<and> fs (snd (convert_reads sys d w)) = fs w)"
proof -
  let ?c = "[''fastq_to_fasta'', ''-i'', d, ''-o'', butlast d @ ''a'']"
  let ?w = "info ''Converting to FASTA'' w"
  have cv: "convert_reads sys d w =
      (case run_cmds sys ?c 0 False None ?w of
         (Inl e, w1) \<Rightarrow> (Inl e, w1)
       | (Inr v, w1) \<Rightarrow> (Inr (butlast d @ ''a''), w1))"
    using assms by (simp add: convert_reads_def)
  have a: "fst (convert_reads sys d w)
              = (if exitcode r = 0 then Inr (butlast d @ ''a'')
                 else Inl (AssertionError (''Exit code '' @ str_int (exitcode r))))
            \<and> fs (snd (convert_reads sys d w)) = fs_after r
            \<and> clock (snd (convert_reads sys d w)) = Suc (clock w)"
    if "sys ?c (clock w) (fs w) = Some r" for r
  proof -
    from that have "sys ?c (clock ?w) (fs ?w) = Some r" by simp
    from run_cmds_once[where sys=sys and c="?c" and w="?w", OF this] show ?thesis
      unfolding cv by simp
  qed
  have b: "fst (convert_reads sys d w) = Inl (OSError (join_with '' '' ?c))
                  \<and> fs (snd (convert_reads sys d w)) = fs w"
    if "sys ?c (clock w) (fs w) = None"
  proof -
    from that have "sys ?c (clock ?w) (fs ?w) = None" by simp
    from run_cmds_not_launched[where sys=sys and c="?c" and w="?w", OF this] show ?thesis
      unfolding cv by simp
  qed
  from a b show ?thesis by blast
qed

lemma decompress_reads_launches:
  assumes "endswith lp ''.gz''"
  shows "(\<forall>r. sys [''pigz'', ''-d'', lp] (clock w) (fs w) = Some r \<longrightarrow>
            fst (decompress_reads sys lp w)
              = (if exitcode r = 0 then Inr (take (length lp - 3) lp)
                 else Inl (AssertionError (''Exit code '' @ str_int (exitcode r))))
            \<and> fs (snd (decompress_reads sys lp w)) = fs_after r
            \<and> clock (snd (decompress_reads sys lp w)) = Suc (clock w))
         \<and> (sys [''pigz'', ''-d'', lp] (clock w) (fs w) = None
              \<longrightarrow> fst (decompress_reads sys lp w)
                    = Inl (OSError (join_with '' '' [''pigz'', ''-d'', lp]))
                  \<and> fs (snd (decompress_reads sys lp w)) = fs w)"
proof -
  let ?c = "[''pigz'', ''-d'', lp]"
  let ?w = "info (''Decompressing '' @ lp) w"
  have cv: "decompress_reads sys lp w =
      (case run_cmds sys ?c 0 False None ?w of
         (Inl e, w1) \<Rightarrow> (Inl e, w1)
       | (Inr v, w1) \<Rightarrow> (Inr (take (length lp - 3) lp), w1))"
    using assms by (simp add: decompress_reads_def)
  have a: "fst (decompress_reads sys lp w)
              = (if exitcode r = 0 then Inr (take (length lp - 3) lp)
                 else Inl (AssertionError (''Exit code '' @ str_int (exitcode r))))
            \<and> fs (snd (decompress_reads sys lp w)) = fs_after r
            \<and> clock (snd (decompress_reads sys lp w)) = Suc (clock w)"
    if "sys ?c (clock w) (fs w) = Some r" for r
  proof -
    from that have "sys ?c (clock ?w) (fs ?w) = Some r" by simp
    from run_cmds_once[where sys=sys and c="?c" and w="?w", OF this] show ?thesis
      unfolding cv by simp
  qed
  have b: "fst (decompress_reads sys lp w) = Inl (OSError (join_with '' '' ?c))
                  \<and> fs (snd (decompress_reads sys lp w)) = fs w"
    if "sys ?c (clock w) (fs w) = None"
  proof -
    from that have "sys ?c (clock ?w) (fs ?w) = None" by simp
    from run_cmds_not_launched[where sys=sys and c="?c" and w="?w", OF this] show ?thesis
      unfolding cv by simp
  qed
  from a b show ?thesis by blast
qed

lemma normalize_reads_plain:
  "\<not> endswith lp ''.gz'' \<Longrightarrow> normalize_reads sys lp w = convert_reads sys lp w"
  by (simp add: normalize_reads_def decompress_reads_def)

text \<open>
  Claim C8. A non-empty path without the \<open>.gz\<close> suffix whose last character is neither \<open>q\<close>
  nor \<open>Q\<close> is returned unchanged, and nothing is run or logged. Let \<open>d\<close> be the path after
  the decompression step (the path without \<open>.gz\<close>, or the path itself), non-empty and ending
  in \<open>q\<close> or \<open>Q\<close>. Whenever a path is returned, it is \<open>d\<close> with its last character replaced
  by \<open>a\<close>, and the command line of the converter is in the log; a path is returned when the
  external programs exit with status 0. The converter \<open>fastq_to_fasta\<close>, from \<open>d\<close> to that
  path, is the process started at the clock and on the file system that the decompression
  step left
  (those of the call when there is no \<open>.gz\<close> suffix, those that \<open>pigz\<close> left after exiting
  with status 0 otherwise): if it exits with status 0 the result is the converted path, if it
  exits with another status the result is the assertion error with that status, and in both
  cases the file system afterwards is the one the converter left and the clock has advanced
  by one; if it cannot be started the result is the error of the operating system. For a
  path with the \<open>.gz\<close> suffix, \<open>pigz -d\<close> is started first, on the file system of the call: a
  non-zero exit status is the assertion error with that status, with the file system that
  \<open>pigz\<close> left and the clock advanced by one only (the converter is not started), and a
  \<open>pigz\<close> that cannot be started is the error of the operating system.
\<close>

theorem normalize_reads_by_last_character:
  "(lp \<noteq> [] \<and> \<not> endswith lp ''.gz'' \<and> last lp \<noteq> CHR ''q'' \<and> last lp \<noteq> CHR ''Q''
      \<longrightarrow> normalize_reads sys lp w = (Inr lp, w))
   \<and> (let d = (if endswith lp ''.gz'' then take (length lp - 3) lp else lp) in
        d \<noteq> [] \<and> (last d = CHR ''q'' \<or> last d = CHR ''Q'') \<longrightarrow>
          (\<forall>p w'. normalize_reads sys lp w = (Inr p, w') \<longrightarrow>
              p = butlast d @ ''a'' \<and> last p = CHR ''a''
              \<and> join_with '' '' [''fastq_to_fasta'', ''-i'', d, ''-o'', p] \<in> set (log w'))
          \<and> ((\<forall>c n f. \<exists>r. sys c n f = Some r \<and> exitcode r = 0) \<longrightarrow>
                (\<exists>w'. normalize_reads sys lp w = (Inr (butlast d @ ''a''), w')))
          \<and> (\<forall>k f r.
                ((\<not> endswith lp ''.gz'' \<and> k = clock w \<and> f = fs w)
                 \<or> (endswith lp ''.gz'' \<and>
                     (\<exists>z. sys [''pigz'', ''-d'', lp] (clock w) (fs w) = Some z
                          \<and> exitcode z = 0 \<and> k = Suc (clock w) \<and> f = fs_after z)))
                \<and> sys [''fastq_to_fasta'', ''-i'', d, ''-o'', butlast d @ ''a''] k f = Some r
                \<longrightarrow> fst (normalize_reads sys lp w)
                      = (if exitcode r = 0 then Inr (butlast d @ ''a'')
                         else Inl (AssertionError (''Exit code '' @ str_int (exitcode r))))
                    \<and> fs (snd (normalize_reads sys lp w)) = fs_after r
                    \<and> clock (snd (normalize_reads sys lp w)) = Suc k)
          \<and> (\<forall>k f.
                ((\<not> endswith lp ''.gz'' \<and> k = clock w \<and> f = fs w)
                 \<or> (endswith lp ''.gz'' \<and>
                     (\<exists>z. sys [''pigz'', ''-d'', lp] (clock w) (fs w) = Some z
                          \<and> exitcode z = 0 \<and> k = Suc (clock w) \<and> f = fs_after z)))
                \<and> sys [''fastq_to_fasta'', ''-i'', d, ''-o'', butlast d @ ''a''] k f = None
                \<longrightarrow> fst (normalize_reads sys lp w)
                      = Inl (OSError (join_with '' ''
                               [''fastq_to_fasta'', ''-i'', d, ''-o'', butlast d @ ''a'']))
                    \<and> fs (snd (normalize_reads sys lp w)) = f))
   \<and> (endswith lp ''.gz'' \<longrightarrow>
        (\<forall>z. sys [''pigz'', ''-d'', lp] (clock w) (fs w) = Some z \<and> exitcode z \<noteq> 0 \<longrightarrow>
            fst (normalize_reads sys lp w)
              = Inl (AssertionError (''Exit code '' @ str_int (exitcode z)))
            \<and> fs (snd (normalize_reads sys lp w)) = fs_after z
            \<and> clock (snd (normalize_reads sys lp w)) = Suc (clock w))
        \<and> (sys [''pigz'', ''-d'', lp] (clock w) (fs w) = None \<longrightarrow>
            fst (normalize_reads sys lp w)
              = Inl (OSError (join_with '' '' [''pigz'', ''-d'', lp]))
            \<and> fs (snd (normalize_reads sys lp w)) = fs w))"
proof -
  define d where "d = (if endswith lp ''.gz'' then take (length lp - 3) lp else lp)"
  let ?conv = "[''fastq_to_fasta'', ''-i'', d, ''-o'', butlast d @ ''a'']"
  let ?pigz = "[''pigz'', ''-d'', lp]"
  let ?N = "normalize_reads sys lp w"
  let ?D = "decompress_reads sys lp w"
  let ?after = "\<lambda>k f. (\<not> endswith lp ''.gz'' \<and> k = clock w \<and> f = fs w)
                 \<or> (endswith lp ''.gz'' \<and>
                     (\<exists>z. sys ?pigz (clock w) (fs w) = Some z
                          \<and> exitcode z = 0 \<and> k = Suc (clock w) \<and> f = fs_after z))"
  have part1: "normalize_reads sys lp w = (Inr lp, w)"
    if "lp \<noteq> [] \<and> \<not> endswith lp ''.gz'' \<and> last lp \<noteq> CHR ''q'' \<and> last lp \<noteq> CHR ''Q''"
    using that by (simp add: normalize_reads_def decompress_reads_def convert_reads_def)
  have part2: "p = butlast d @ ''a'' \<and> last p = CHR ''a''
              \<and> join_with '' '' [''fastq_to_fasta'', ''-i'', d, ''-o'', p] \<in> set (log w')"
    if q: "d \<noteq> []" "last d = CHR ''q'' \<or> last d = CHR ''Q''"
      and n: "normalize_reads sys lp w = (Inr p, w')" for p w'
  proof -
    from n obtain d' w1 where dec: "decompress_reads sys lp w = (Inr d', w1)"
      and conv: "convert_reads sys d' w1 = (Inr p, w')"
      by (auto simp: normalize_reads_def split: prod.splits sum.splits)
    from decompress_reads_Inr[OF dec] have "d' = d"
      by (simp add: d_def)
    with conv q convert_reads_Inr[of sys d w1 p w'] show ?thesis
      by auto
  qed
  have part3: "\<exists>w'. normalize_reads sys lp w = (Inr (butlast d @ ''a''), w')"
    if q: "d \<noteq> []" "last d = CHR ''q'' \<or> last d = CHR ''Q''"
      and ok: "\<forall>c n f. \<exists>r. sys c n f = Some r \<and> exitcode r = 0"
  proof -
    from decompress_reads_ok[OF ok, of lp w] obtain w1 where
      "decompress_reads sys lp w = (Inr d, w1)"
      by (auto simp: d_def)
    moreover from convert_reads_ok[OF ok q, of w1] obtain w' where
      "convert_reads sys d w1 = (Inr (butlast d @ ''a''), w')"
      by blast
    ultimately show ?thesis
      by (simp add: normalize_reads_def)
  qed
  have reach: "\<exists>w1. ?N = convert_reads sys d w1 \<and> clock w1 = k \<and> fs w1 = f"
    if "?after k f" for k f
  proof (cases "endswith lp ''.gz''")
    case False
    with that normalize_reads_plain[of lp sys w] show ?thesis
      by (auto simp: d_def)
  next
    case True
    with that obtain z where z: "sys ?pigz (clock w) (fs w) = Some z" "exitcode z = 0"
      "k = Suc (clock w)" "f = fs_after z"
      by blast
    from decompress_reads_launches[OF True, of sys w] z
    have "fst ?D = Inr d" "fs (snd ?D) = f" "clock (snd ?D) = k"
      using True by (simp_all add: d_def)
    then have "?N = convert_reads sys d (snd ?D)"
      by (cases ?D) (simp add: normalize_reads_def)
    with \<open>fs (snd ?D) = f\<close> \<open>clock (snd ?D) = k\<close> show ?thesis
      by blast
  qed
  have part4: "fst ?N = (if exitcode r = 0 then Inr (butlast d @ ''a'')
                         else Inl (AssertionError (''Exit code '' @ str_int (exitcode r))))
                    \<and> fs (snd ?N) = fs_after r \<and> clock (snd ?N) = Suc k"
    if q: "d \<noteq> []" "last d = CHR ''q'' \<or> last d = CHR ''Q''"
      and a: "?after k f" and s: "sys ?conv k f = Some r" for k f r
  proof -
    from reach[OF a] obtain w1 where w1: "?N = convert_reads sys d w1" "clock w1 = k" "fs w1 = f"
      by blast
    from convert_reads_launches[OF q, of sys w1] s w1 show ?thesis
      by simp
  qed
  have part5: "fst ?N = Inl (OSError (join_with '' '' ?conv)) \<and> fs (snd ?N) = f"
    if q: "d \<noteq> []" "last d = CHR ''q'' \<or> last d = CHR ''Q''"
      and a: "?after k f" and s: "sys ?conv k f = None" for k f
  proof -
    from reach[OF a] obtain w1 where w1: "?N = convert_reads sys d w1" "clock w1 = k" "fs w1 = f"
      by blast
    from convert_reads_launches[OF q, of sys w1] s w1 show ?thesis
      by simp
  qed
  have part6: "fst ?N = Inl (AssertionError (''Exit code '' @ str_int (exitcode z)))
            \<and> fs (snd ?N) = fs_after z \<and> clock (snd ?N) = Suc (clock w)"
    if gz: "endswith lp ''.gz''" and s: "sys ?pigz (clock w) (fs w) = Some z" "exitcode z \<noteq> 0"
    for z
  proof -
    from decompress_reads_launches[OF gz, of sys w] s
    have "fst ?D = Inl (AssertionError (''Exit code '' @ str_int (exitcode z)))"
      "fs (snd ?D) = fs_after z" "clock (snd ?D) = Suc (clock w)"
      by simp_all
    then show ?thesis
      by (cases ?D) (simp add: normalize_reads_def)
  qed
  have part7: "fst ?N = Inl (OSError (join_with '' '' ?pigz)) \<and> fs (snd ?N) = fs w"
    if gz: "endswith lp ''.gz''" and s: "sys ?pigz (clock w) (fs w) = None"
  proof -
    from decompress_reads_launches[OF gz, of sys w] s
    have "fst ?D = Inl (OSError (join_with '' '' ?pigz))" "fs (snd ?D) = fs w"
      by simp_all
    then show ?thesis
      by (cases ?D) (simp add: normalize_reads_def)
  qed
  have A: "lp \<noteq> [] \<and> \<not> endswith lp ''.gz'' \<and> last lp \<noteq> CHR ''q'' \<and> last lp \<noteq> CHR ''Q''
      \<longrightarrow> normalize_reads sys lp w = (Inr lp, w)"
    using part1 by blast
  have B: "d \<noteq> [] \<and> (last d = CHR ''q'' \<or> last d = CHR ''Q'') \<longrightarrow>
          (\<forall>p w'. normalize_reads sys lp w = (Inr p, w') \<longrightarrow>
              p = butlast d @ ''a'' \<and> last p = CHR ''a''
              \<and> join_with '' '' [''fastq_to_fasta'', ''-i'', d, ''-o'', p] \<in> set (log w'))
          \<and> ((\<forall>c n f. \<exists>r. sys c n f = Some r \<and> exitcode r = 0) \<longrightarrow>
                (\<exists>w'. normalize_reads sys lp w = (Inr (butlast d @ ''a''), w')))
          \<and> (\<forall>k f r. ?after k f \<and> sys ?conv k f = Some r
                \<longrightarrow> fst ?N = (if exitcode r = 0 then Inr (butlast d @ ''a'')
                         else Inl (AssertionError (''Exit code '' @ str_int (exitcode r))))
                    \<and> fs (snd ?N) = fs_after r \<and> clock (snd ?N) = Suc k)
          \<and> (\<forall>k f. ?after k f \<and> sys ?conv k f = None
                \<longrightarrow> fst ?N = Inl (OSError (join_with '' '' ?conv)) \<and> fs (snd ?N) = f)"
  proof (intro impI conjI allI; (elim conjE)?)
    fix p w' assume "d \<noteq> []" "last d = CHR ''q'' \<or> last d = CHR ''Q''" "?N = (Inr p, w')"
    from part2[OF this] show "p = butlast d @ ''a''" "last p = CHR ''a''"
      "join_with '' '' [''fastq_to_fasta'', ''-i'', d, ''-o'', p] \<in> set (log w')"
      by blast+
  next
    assume "d \<noteq> []" "last d = CHR ''q'' \<or> last d = CHR ''Q''"
      "\<forall>c n f. \<exists>r. sys c n f = Some r \<and> exitcode r = 0"
    from part3[OF this] show "\<exists>w'. ?N = (Inr (butlast d @ ''a''), w')" .
  next
    fix k f r assume "d \<noteq> []" "last d = CHR ''q'' \<or> last d = CHR ''Q''" "?after k f"
      "sys ?conv k f = Some r"
    from part4[OF this] show "fst ?N = (if exitcode r = 0 then Inr (butlast d @ ''a'')
                         else Inl (AssertionError (''Exit code '' @ str_int (exitcode r))))"
      "fs (snd ?N) = fs_after r" "clock (snd ?N) = Suc k"
      by blast+
  next
    fix k f assume "d \<noteq> []" "last d = CHR ''q'' \<or> last d = CHR ''Q''" "?after k f"
      "sys ?conv k f = None"
    from part5[OF this] show "fst ?N = Inl (OSError (join_with '' '' ?conv))" "fs (snd ?N) = f"
      by blast+
  qed
  have C: "endswith lp ''.gz'' \<longrightarrow>
        (\<forall>z. sys ?pigz (clock w) (fs w) = Some z \<and> exitcode z \<noteq> 0 \<longrightarrow>
            fst ?N = Inl (AssertionError (''Exit code '' @ str_int (exitcode z)))
            \<and> fs (snd ?N) = fs_after z \<and> clock (snd ?N) = Suc (clock w))
        \<and> (sys ?pigz (clock w) (fs w) = None \<longrightarrow>
            fst ?N = Inl (OSError (join_with '' '' ?pigz)) \<and> fs (snd ?N) = fs w)"
    using part6 part7 by blast
  from A B C show ?thesis
    unfolding Let_def d_def[symmetric] by (intro conjI)
qed

subsection \<open>Which exceptions can be raised\<close>


lemma attempt_not_Exception: "attempt sys c so w = (Inl e, w') \<Longrightarrow> \<not> is_Exception e"
  by (auto simp: attempt_def launch_def log_output_def open_wt_def
      split: prod.splits sum.splits option.splits if_splits pyval.splits)

lemma run_cmds_not_Exception:
  "run_cmds sys c retry ce so w = (Inl e, w') \<Longrightarrow> \<not> is_Exception e"
proof (induction sys c retry ce so w arbitrary: e w' rule: run_cmds.induct)
  case (1 sys commands retry catchExcept stdout w)
  obtain x w1 where a: "attempt sys commands stdout w = (x, w1)"
    by (cases "attempt sys commands stdout w")
  show ?case
  proof (cases x)
    case (Inl e1)
    with a 1(2) attempt_not_Exception[of sys commands stdout w e1 w1] show ?thesis
      by (simp add: run_cmds.simps[of sys commands retry catchExcept stdout w])
  next
    case (Inr code)
    show ?thesis
    proof (cases "code \<noteq> 0 \<and> retry > 0")
      case True
      with 1(2) a Inr 1(1)[OF a[symmetric, unfolded Inr] refl True] show ?thesis
        by (auto simp add: run_cmds.simps[of sys commands retry catchExcept stdout w]
            split: prod.splits sum.splits)
    next
      case False
      with a Inr 1(2) show ?thesis
        by (auto simp add: run_cmds.simps[of sys commands retry catchExcept stdout w]
            split: if_splits)
    qed
  qed
qed

lemma make_missing_dirs_not_Exception:
  "make_missing_dirs ps f = Inl e \<Longrightarrow> \<not> is_Exception e"
  by (induction ps arbitrary: f) (auto simp: mkdir_def split: if_splits sum.splits)

lemma rmtree_not_Exception: "rmtree f d = Inl e \<Longrightarrow> \<not> is_Exception e"
  by (auto simp: rmtree_def split: if_splits)

lemma mkdir_not_Exception: "mkdir f d = Inl e \<Longrightarrow> \<not> is_Exception e"
  by (auto simp: mkdir_def split: if_splits)

lemma unlink_not_Exception: "unlink f d = Inl e \<Longrightarrow> \<not> is_Exception e"
  by (auto simp: unlink_def split: option.splits node.splits)

lemma listdir_not_Exception: "listdir f d = Inl e \<Longrightarrow> \<not> is_Exception e"
  by (auto simp: listdir_def split: if_splits)

lemma open_wt_not_Exception: "open_wt f d = Inl e \<Longrightarrow> \<not> is_Exception e"
  by (auto simp: open_wt_def split: if_splits)

lemma copyfile_not_Exception: "copyfile f a b = Inl e \<Longrightarrow> \<not> is_Exception e"
  by (auto simp: copyfile_def split: if_splits option.splits node.splits sum.splits
      dest: open_wt_not_Exception)

lemma set_up_sra_cache_folder_not_Exception:
  "set_up_sra_cache_folder sys T w = (Inl e, w') \<Longrightarrow> \<not> is_Exception e"
  by (auto simp: set_up_sra_cache_folder_def Let_def
      split: sum.splits if_splits prod.splits
      dest: make_missing_dirs_not_Exception rmtree_not_Exception mkdir_not_Exception
        run_cmds_not_Exception)

lemma shell_to_file_not_Exception:
  "shell_to_file sys cmd p w = (Inl e, w') \<Longrightarrow> \<not> is_Exception e"
  by (auto simp: shell_to_file_def split: sum.splits option.splits
      dest: open_wt_not_Exception)

lemma remove_parts_not_Exception:
  "remove_parts A T names w = (Inl e, w') \<Longrightarrow> \<not> is_Exception e"
  by (induction names arbitrary: w)
    (auto simp: Let_def split: if_splits sum.splits dest: unlink_not_Exception)

lemma combine_parts_not_Exception:
  "combine_parts sys A T lp w = (Inl e, w') \<Longrightarrow> \<not> is_Exception e"
  by (auto simp: combine_parts_def Let_def
      split: sum.splits if_splits prod.splits
      dest: shell_to_file_not_Exception listdir_not_Exception remove_parts_not_Exception
        unlink_not_Exception run_cmds_not_Exception)

lemma get_sra_not_Exception:
  "get_sra sys A T w = (Inl e, w') \<Longrightarrow> \<not> is_Exception e"
  by (auto simp: get_sra_def Let_def
      split: sum.splits if_splits prod.splits
      dest: set_up_sra_cache_folder_not_Exception listdir_not_Exception
        combine_parts_not_Exception run_cmds_not_Exception)

subsection \<open>The choice of the source\<close>


lemma before_sep_ftp: "startswith s ''ftp://'' \<Longrightarrow> before_sep ''://'' s = ''ftp''"
  by (auto simp: startswith_def elim!: prefixE)

lemma before_sep_https: "startswith s ''https://'' \<Longrightarrow> before_sep ''://'' s = ''https''"
  by (auto simp: startswith_def elim!: prefixE)

lemma before_sep_http: "startswith s ''http://'' \<Longrightarrow> before_sep ''://'' s = ''http''"
  by (auto simp: startswith_def elim!: prefixE)

lemma before_sep_sra: "startswith s ''sra://'' \<Longrightarrow> before_sep ''://'' s = ''sra''"
  by (auto simp: startswith_def elim!: prefixE)

lemma startswith_excl:
  "startswith s ''s3://'' \<Longrightarrow> \<not> startswith s ''sra://'' \<and> \<not> startswith s ''ftp://''
     \<and> \<not> startswith s ''https://'' \<and> \<not> startswith s ''http://''"
  "startswith s ''sra://'' \<Longrightarrow> \<not> startswith s ''ftp://''
     \<and> \<not> startswith s ''https://'' \<and> \<not> startswith s ''http://''"
  by (auto simp: startswith_def elim!: prefixE)

lemma source_branch_cases:
  "source_branch s =
     (if startswith s ''s3://'' then ObjectStoreCopy
      else if startswith s ''ftp://'' \<or> startswith s ''https://'' \<or> startswith s ''http://''
        then UrlFetch
      else if startswith s ''sra://'' then ArchiveFetch
      else LocalCopy)"
  using startswith_excl[of s]
  by (auto simp: source_branch_def before_sep_ftp before_sep_https before_sep_http before_sep_sra)

lemma fetch_reads_not_Exception:
  "fetch_reads sys s T fn lp w = (Inl e, w') \<Longrightarrow> \<not> is_Exception e"
  by (cases "source_branch s")
    (auto simp: fetch_reads_def Let_def source_branch_cases
      split: sum.splits if_splits prod.splits
      dest: copyfile_not_Exception get_sra_not_Exception run_cmds_not_Exception)

lemma normalize_reads_not_Exception:
  "normalize_reads sys lp w = (Inl e, w') \<Longrightarrow> \<not> is_Exception e"
  by (auto simp: normalize_reads_def decompress_reads_def convert_reads_def
      split: sum.splits if_splits prod.splits dest: run_cmds_not_Exception)

lemma get_reads_from_url_not_Exception:
  "get_reads_from_url sys s T w = (Inl e, w') \<Longrightarrow> \<not> is_Exception e"
  by (auto simp: get_reads_from_url_def Let_def split: sum.splits prod.splits
      dest: fetch_reads_not_Exception normalize_reads_not_Exception)

text \<open>
  Claim C2, amended. No input reaches the last branch, and \<open>get_reads_from_url\<close> never
  raises the exception of line 139. An input that starts with \<open>s3://\<close> is fetched by
  \<open>aws s3 cp --quiet --sse AES256 input temp_folder\<close> and by nothing else: the call equals
  this one execution followed by the format steps on the local path, the process is started
  on the file system of the call, its non-zero exit status is the assertion error with that
  status, and after status 0 the format steps run on the file system it left. An input that
  starts with \<open>ftp://\<close>, \<open>https://\<close> or \<open>http://\<close> is fetched in the same way by
  \<open>wget -P temp_folder input\<close>. An input that starts with \<open>sra://\<close> is fetched by \<open>get_sra\<close>
  on the accession, and the format steps run on the path it returns. An input that starts
  with none of the five prefixes is a local path: the assertion error
  \<open>Input file does not exist\<close> when no such path exists, otherwise \<open>shutil.copyfile\<close> to the
  local path followed by the format steps, with no process started for the copy.
\<close>

theorem source_branch_never_unrecognized:
  "source_branch s \<noteq> Unrecognized
   \<and> (source_branch s = ObjectStoreCopy) = startswith s ''s3://''
   \<and> (source_branch s = UrlFetch)
       = (startswith s ''ftp://'' \<or> startswith s ''https://'' \<or> startswith s ''http://'')
   \<and> (source_branch s = ArchiveFetch) = startswith s ''sra://''
   \<and> (source_branch s = LocalCopy)
       = (\<not> (startswith s ''s3://'' \<or> startswith s ''sra://'' \<or> startswith s ''ftp://''
             \<or> startswith s ''https://'' \<or> startswith s ''http://''))
   \<and> (\<forall>e. fst (get_reads_from_url sys s T w) = Inl e \<longrightarrow> \<not> is_Exception e)
   \<and> (source_branch s = LocalCopy \<and> \<not> exists (fs w) s \<longrightarrow>
        fst (get_reads_from_url sys s T w)
          = Inl (AssertionError (''Input file does not exist ('' @ s @ '')'')))
   \<and> (let fn = last (split_on CHR ''/'' s);
           lp = path_join T fn;
           w1 = info (''Local path: '' @ lp)
                  (info (''Filename: '' @ fn) (info (''Getting reads from '' @ s) w));
           aws = [''aws'', ''s3'', ''cp'', ''--quiet'', ''--sse'', ''AES256'', s, T];
           wget = [''wget'', ''-P'', T, s]
       in
         (startswith s ''s3://'' \<longrightarrow>
            get_reads_from_url sys s T w
              = (case run_cmds sys aws 0 False None (info ''Getting reads from S3'' w1) of
                   (Inl e, w2) \<Rightarrow> (Inl e, w2)
                 | (Inr v, w2) \<Rightarrow> normalize_reads sys lp w2)
            \<and> (\<forall>r. sys aws (clock w) (fs w) = Some r \<and> exitcode r \<noteq> 0 \<longrightarrow>
                  fst (get_reads_from_url sys s T w)
                    = Inl (AssertionError (''Exit code '' @ str_int (exitcode r)))
                  \<and> fs (snd (get_reads_from_url sys s T w)) = fs_after r
                  \<and> clock (snd (get_reads_from_url sys s T w)) = Suc (clock w))
            \<and> (\<forall>r. sys aws (clock w) (fs w) = Some r \<and> exitcode r = 0 \<longrightarrow>
                  (\<exists>w2. fs w2 = fs_after r \<and> clock w2 = Suc (clock w)
                        \<and> get_reads_from_url sys s T w = normalize_reads sys lp w2)))
         \<and> (startswith s ''ftp://'' \<or> startswith s ''https://'' \<or> startswith s ''http://'' \<longrightarrow>
            get_reads_from_url sys s T w
              = (case run_cmds sys wget 0 False None (info ''Getting reads from FTP'' w1) of
                   (Inl e, w2) \<Rightarrow> (Inl e, w2)
                 | (Inr v, w2) \<Rightarrow> normalize_reads sys lp w2)
            \<and> (\<forall>r. sys wget (clock w) (fs w) = Some r \<and> exitcode r \<noteq> 0 \<longrightarrow>
                  fst (get_reads_from_url sys s T w)
                    = Inl (AssertionError (''Exit code '' @ str_int (exitcode r)))
                  \<and> fs (snd (get_reads_from_url sys s T w)) = fs_after r
                  \<and> clock (snd (get_reads_from_url sys s T w)) = Suc (clock w))
            \<and> (\<forall>r. sys wget (clock w) (fs w) = Some r \<and> exitcode r = 0 \<longrightarrow>
                  (\<exists>w2. fs w2 = fs_after r \<and> clock w2 = Suc (clock w)
                        \<and> get_reads_from_url sys s T w = normalize_reads sys lp w2)))
         \<and> (startswith s ''sra://'' \<longrightarrow>
            get_reads_from_url sys s T w
              = (case get_sra sys fn T (info (''Getting reads from SRA: '' @ fn) w1) of
                   (Inl e, w2) \<Rightarrow> (Inl e, w2)
                 | (Inr p, w2) \<Rightarrow> normalize_reads sys p w2))
         \<and> (\<not> (startswith s ''s3://'' \<or> startswith s ''sra://'' \<or> startswith s ''ftp://''
                \<or> startswith s ''https://'' \<or> startswith s ''http://'') \<longrightarrow>
            get_reads_from_url sys s T w
              = (if \<not> exists (fs w) s
                 then (Inl (AssertionError (''Input file does not exist ('' @ s @ '')'')),
                       info ''Treating as local path'' w1)
                 else (case copyfile (fs w) s lp of
                         Inl e \<Rightarrow>
                           (Inl e, info ''Making a copy in the temporary folder''
                                     (info ''Treating as local path'' w1))
                       | Inr f \<Rightarrow>
                           normalize_reads sys lp
                             ((info ''Making a copy in the temporary folder''
                                 (info ''Treating as local path'' w1))\<lparr>fs := f\<rparr>)))))"
proof -
  define fn where "fn = last (split_on CHR ''/'' s)"
  define lp where "lp = path_join T fn"
  define w1 where "w1 = info (''Local path: '' @ lp)
                  (info (''Filename: '' @ fn) (info (''Getting reads from '' @ s) w))"
  define aws where "aws = [''aws'', ''s3'', ''cp'', ''--quiet'', ''--sse'', ''AES256'', s, T]"
  define wget where "wget = [''wget'', ''-P'', T, s]"
  let ?G = "get_reads_from_url sys s T w"
  have w1: "clock w1 = clock w" "fs w1 = fs w"
    by (simp_all add: w1_def)
  have G: "?G = (case fetch_reads sys s T fn lp w1 of
                   (Inl e, w2) \<Rightarrow> (Inl e, w2)
                 | (Inr fetched, w2) \<Rightarrow> normalize_reads sys fetched w2)"
    by (simp add: get_reads_from_url_def Let_def fn_def lp_def w1_def)
  have a: "\<forall>e. fst ?G = Inl e \<longrightarrow> \<not> is_Exception e"
    using get_reads_from_url_not_Exception[of sys s T w]
    by (cases "get_reads_from_url sys s T w") auto
  have b: "source_branch s = LocalCopy \<and> \<not> exists (fs w) s \<longrightarrow>
        fst ?G = Inl (AssertionError (''Input file does not exist ('' @ s @ '')''))"
    by (simp add: get_reads_from_url_def fetch_reads_def Let_def)
  have c: "source_branch s \<noteq> Unrecognized
   \<and> (source_branch s = ObjectStoreCopy) = startswith s ''s3://''
   \<and> (source_branch s = UrlFetch)
       = (startswith s ''ftp://'' \<or> startswith s ''https://'' \<or> startswith s ''http://'')
   \<and> (source_branch s = ArchiveFetch) = startswith s ''sra://''
   \<and> (source_branch s = LocalCopy)
       = (\<not> (startswith s ''s3://'' \<or> startswith s ''sra://'' \<or> startswith s ''ftp://''
             \<or> startswith s ''https://'' \<or> startswith s ''http://''))"
    using startswith_excl[of s] by (auto simp: source_branch_cases)
  have run: "(\<forall>r. sys cmd (clock w) (fs w) = Some r \<and> exitcode r \<noteq> 0 \<longrightarrow>
                  fst ?G = Inl (AssertionError (''Exit code '' @ str_int (exitcode r)))
                  \<and> fs (snd ?G) = fs_after r \<and> clock (snd ?G) = Suc (clock w))
            \<and> (\<forall>r. sys cmd (clock w) (fs w) = Some r \<and> exitcode r = 0 \<longrightarrow>
                  (\<exists>w2. fs w2 = fs_after r \<and> clock w2 = Suc (clock w)
                        \<and> ?G = normalize_reads sys lp w2))"
    if eq: "?G = (case run_cmds sys cmd 0 False None (info m w1) of
                   (Inl e, w2) \<Rightarrow> (Inl e, w2)
                 | (Inr v, w2) \<Rightarrow> normalize_reads sys lp w2)" for cmd m
  proof (intro conjI allI impI; elim conjE)
    fix r assume s: "sys cmd (clock w) (fs w) = Some r" and x: "exitcode r \<noteq> 0"
    from s w1 have "sys cmd (clock (info m w1)) (fs (info m w1)) = Some r" by simp
    from run_cmds_once[where sys=sys and c=cmd and w="info m w1", OF this] x w1
    show "fst ?G = Inl (AssertionError (''Exit code '' @ str_int (exitcode r)))"
      "fs (snd ?G) = fs_after r" "clock (snd ?G) = Suc (clock w)"
      unfolding eq by simp_all
  next
    fix r assume s: "sys cmd (clock w) (fs w) = Some r" and x: "exitcode r = 0"
    let ?R = "run_cmds sys cmd 0 False None (info m w1)"
    from s w1 have "sys cmd (clock (info m w1)) (fs (info m w1)) = Some r" by simp
    from run_cmds_once[where sys=sys and c=cmd and w="info m w1", OF this] x w1
    have R: "fst ?R = Inr PyNone" "fs (snd ?R) = fs_after r" "clock (snd ?R) = Suc (clock w)"
      by simp_all
    from R(1) have "?G = normalize_reads sys lp (snd ?R)"
      unfolding eq by (cases ?R) simp
    with R(2,3)
    show "\<exists>w2. fs w2 = fs_after r \<and> clock w2 = Suc (clock w) \<and> ?G = normalize_reads sys lp w2"
      by blast
  qed
  have s3: "?G = (case run_cmds sys aws 0 False None (info ''Getting reads from S3'' w1) of
                   (Inl e, w2) \<Rightarrow> (Inl e, w2)
                 | (Inr v, w2) \<Rightarrow> normalize_reads sys lp w2)"
    if "startswith s ''s3://''"
  proof -
    from c that have "source_branch s = ObjectStoreCopy"
      by simp
    then show ?thesis
      unfolding G by (simp add: fetch_reads_def aws_def split: prod.splits sum.splits)
  qed
  have url: "?G = (case run_cmds sys wget 0 False None (info ''Getting reads from FTP'' w1) of
                   (Inl e, w2) \<Rightarrow> (Inl e, w2)
                 | (Inr v, w2) \<Rightarrow> normalize_reads sys lp w2)"
    if "startswith s ''ftp://'' \<or> startswith s ''https://'' \<or> startswith s ''http://''"
  proof -
    from c that have "source_branch s = UrlFetch"
      by simp
    then show ?thesis
      unfolding G by (simp add: fetch_reads_def wget_def split: prod.splits sum.splits)
  qed
  have sra: "?G = (case get_sra sys fn T (info (''Getting reads from SRA: '' @ fn) w1) of
                   (Inl e, w2) \<Rightarrow> (Inl e, w2)
                 | (Inr p, w2) \<Rightarrow> normalize_reads sys p w2)"
    if "startswith s ''sra://''"
  proof -
    from c that have "source_branch s = ArchiveFetch"
      by simp
    then show ?thesis
      unfolding G by (simp add: fetch_reads_def)
  qed
  have loc: "?G = (if \<not> exists (fs w) s
                 then (Inl (AssertionError (''Input file does not exist ('' @ s @ '')'')),
                       info ''Treating as local path'' w1)
                 else (case copyfile (fs w) s lp of
                         Inl e \<Rightarrow>
                           (Inl e, info ''Making a copy in the temporary folder''
                                     (info ''Treating as local path'' w1))
                       | Inr f \<Rightarrow>
                           normalize_reads sys lp
                             ((info ''Making a copy in the temporary folder''
                                 (info ''Treating as local path'' w1))\<lparr>fs := f\<rparr>)))"
    if "\<not> (startswith s ''s3://'' \<or> startswith s ''sra://'' \<or> startswith s ''ftp://''
                \<or> startswith s ''https://'' \<or> startswith s ''http://'')"
  proof -
    from c that have "source_branch s = LocalCopy"
      by simp
    then show ?thesis
      unfolding G by (simp add: fetch_reads_def Let_def w1 split: sum.splits)
  qed
  have d: "(startswith s ''s3://'' \<longrightarrow>
            ?G = (case run_cmds sys aws 0 False None (info ''Getting reads from S3'' w1) of
                   (Inl e, w2) \<Rightarrow> (Inl e, w2)
                 | (Inr v, w2) \<Rightarrow> normalize_reads sys lp w2)
            \<and> (\<forall>r. sys aws (clock w) (fs w) = Some r \<and> exitcode r \<noteq> 0 \<longrightarrow>
                  fst ?G = Inl (AssertionError (''Exit code '' @ str_int (exitcode r)))
                  \<and> fs (snd ?G) = fs_after r \<and> clock (snd ?G) = Suc (clock w))
            \<and> (\<forall>r. sys aws (clock w) (fs w) = Some r \<and> exitcode r = 0 \<longrightarrow>
                  (\<exists>w2. fs w2 = fs_after r \<and> clock w2 = Suc (clock w)
                        \<and> ?G = normalize_reads sys lp w2)))"
    using s3 run[OF s3] by blast
  have e: "(startswith s ''ftp://'' \<or> startswith s ''https://'' \<or> startswith s ''http://'' \<longrightarrow>
            ?G = (case run_cmds sys wget 0 False None (info ''Getting reads from FTP'' w1) of
                   (Inl e, w2) \<Rightarrow> (Inl e, w2)
                 | (Inr v, w2) \<Rightarrow> normalize_reads sys lp w2)
            \<and> (\<forall>r. sys wget (clock w) (fs w) = Some r \<and> exitcode r \<noteq> 0 \<longrightarrow>
                  fst ?G = Inl (AssertionError (''Exit code '' @ str_int (exitcode r)))
                  \<and> fs (snd ?G) = fs_after r \<and> clock (snd ?G) = Suc (clock w))
            \<and> (\<forall>r. sys wget (clock w) (fs w) = Some r \<and> exitcode r = 0 \<longrightarrow>
                  (\<exists>w2. fs w2 = fs_after r \<and> clock w2 = Suc (clock w)
                        \<and> ?G = normalize_reads sys lp w2)))"
    using url run[OF url] by blast
  from sra have f: "startswith s ''sra://'' \<longrightarrow>
            ?G = (case get_sra sys fn T (info (''Getting reads from SRA: '' @ fn) w1) of
                   (Inl e, w2) \<Rightarrow> (Inl e, w2)
                 | (Inr p, w2) \<Rightarrow> normalize_reads sys p w2)"
    by (rule impI)
  from loc have g: "\<not> (startswith s ''s3://'' \<or> startswith s ''sra://'' \<or> startswith s ''ftp://''
                \<or> startswith s ''https://'' \<or> startswith s ''http://'') \<longrightarrow>
            ?G = (if \<not> exists (fs w) s
                 then (Inl (AssertionError (''Input file does not exist ('' @ s @ '')'')),
                       info ''Treating as local path'' w1)
                 else (case copyfile (fs w) s lp of
                         Inl e \<Rightarrow>
                           (Inl e, info ''Making a copy in the temporary folder''
                                     (info ''Treating as local path'' w1))
                       | Inr f \<Rightarrow>
                           normalize_reads sys lp
                             ((info ''Making a copy in the temporary folder''
                                 (info ''Treating as local path'' w1))\<lparr>fs := f\<rparr>)))"
    by (rule impI)
  note all = conjI[OF c[THEN conjunct1] conjI[OF c[THEN conjunct2, THEN conjunct1]
      conjI[OF c[THEN conjunct2, THEN conjunct2, THEN conjunct1]
      conjI[OF c[THEN conjunct2, THEN conjunct2, THEN conjunct2, THEN conjunct1]
      conjI[OF c[THEN conjunct2, THEN conjunct2, THEN conjunct2, THEN conjunct2]
      conjI[OF a conjI[OF b conjI[OF d conjI[OF e conjI[OF f g]]]]]]]]]]
  show ?thesis
    unfolding Let_def fn_def[symmetric] lp_def[symmetric] w1_def[symmetric]
      aws_def[symmetric] wget_def[symmetric]
    by (rule all)
qed

lemma branch_gs: "source_branch ''gs://bucket/reads.fasta'' = LocalCopy"
  by (simp add: source_branch_def startswith_def)

text \<open>
  Claim C2 as stated fails: an input with a scheme prefix that is not one of the five, here
  \<open>gs://\<close>, is taken for a local path and fails with the assertion error of line 114, not
  with the exception of line 139.
\<close>

theorem unknown_scheme_counterexample:
  "fst (get_reads_from_url sys_ok ''gs://bucket/reads.fasta'' ''/share/ws'' world0)
     = Inl (AssertionError ''Input file does not exist (gs://bucket/reads.fasta)'')
   \<and> fst (get_reads_from_url sys_ok ''gs://bucket/reads.fasta'' ''/share/ws'' world0)
     \<noteq> Inl (Exception ''Did not recognize prefix for input: gs://bucket/reads.fasta'')"
  by (simp add: get_reads_from_url_def fetch_reads_def Let_def branch_gs exists_def world0_def)

theorem source_branch_never_unrecognized_witness:
  "fst (get_reads_from_url sys_ok ''missing.fasta'' ''/share/ws'' world0)
     = Inl (AssertionError ''Input file does not exist (missing.fasta)'')
   \<and> source_branch ''missing.fasta'' = LocalCopy
   \<and> source_branch ''s3://bucket/reads.fastq.gz'' = ObjectStoreCopy
   \<and> source_branch ''https://host/reads.fastq'' = UrlFetch
   \<and> source_branch ''sra://SRR000001'' = ArchiveFetch
   \<and> fst (get_reads_from_url sys_tools ''s3://bucket/reads.fastq.gz'' ''/share/ws'' world0)
       = Inl (AssertionError ''Exit code 4'')
   \<and> fst (get_reads_from_url sys_tools ''https://host/reads.fastq'' ''/share/ws'' world0)
       = Inl (AssertionError ''Exit code 8'')
   \<and> fst (get_reads_from_url sys_tools ''ftp://host/reads.fastq'' ''/share/ws'' world0)
       = Inl (AssertionError ''Exit code 8'')
   \<and> fst (get_reads_from_url sys_tools ''sra://SRR000001'' ''/share/ws'' world0)
       = Inl (OSError ''/root/ncbi'')
   \<and> get_reads_from_url sys_tools ''missing.fasta'' ''/share/ws'' world0
       = (Inl (AssertionError ''Input file does not exist (missing.fasta)''),
          \<lparr>fs = [], clock = 0,
           log = [''Getting reads from missing.fasta'', ''Filename: missing.fasta'',
                  ''Local path: /share/ws/missing.fasta'', ''Treating as local path'']\<rparr>)"
proof -
  have l: "source_branch ''missing.fasta'' = LocalCopy"
    by (simp add: source_branch_def startswith_def)
  have e: "\<not> exists (fs world0) ''missing.fasta''"
    by (simp add: exists_def world0_def)
  have w0: "clock world0 = 0" "fs world0 = []"
    by (simp_all add: world0_def)
  have n: "str_int 4 = ''4''" "str_int 8 = ''8''"
    by (simp_all add: str_int_def str_nat.simps)
  have p: "startswith ''s3://bucket/reads.fastq.gz'' ''s3://''"
    "startswith ''ftp://host/reads.fastq'' ''ftp://''
       \<or> startswith ''ftp://host/reads.fastq'' ''https://''
       \<or> startswith ''ftp://host/reads.fastq'' ''http://''"
    "startswith ''https://host/reads.fastq'' ''ftp://''
       \<or> startswith ''https://host/reads.fastq'' ''https://''
       \<or> startswith ''https://host/reads.fastq'' ''http://''"
    "startswith ''sra://SRR000001'' ''sra://''"
    "\<not> (startswith ''missing.fasta'' ''s3://'' \<or> startswith ''missing.fasta'' ''sra://''
        \<or> startswith ''missing.fasta'' ''ftp://'' \<or> startswith ''missing.fasta'' ''https://''
        \<or> startswith ''missing.fasta'' ''http://'')"
    by (simp_all add: startswith_def)
  note t = source_branch_never_unrecognized[of _ sys_ok "''/share/ws''" world0, THEN conjunct2]
  note t_s3 = t[THEN conjunct1]
  note t_url = t[THEN conjunct2, THEN conjunct1]
  note t_sra = t[THEN conjunct2, THEN conjunct2, THEN conjunct1]
  note t_missing = t[THEN conjunct2, THEN conjunct2, THEN conjunct2, THEN conjunct2,
      THEN conjunct2, THEN conjunct1]
  note routes = source_branch_never_unrecognized[of _ sys_tools "''/share/ws''" world0, unfolded Let_def,
      THEN conjunct2, THEN conjunct2, THEN conjunct2, THEN conjunct2, THEN conjunct2,
      THEN conjunct2, THEN conjunct2]
  note s3 = routes[THEN conjunct1, THEN mp, OF p(1), THEN conjunct2, THEN conjunct1]
  note ftp = routes[THEN conjunct2, THEN conjunct1, THEN mp, OF p(2),
      THEN conjunct2, THEN conjunct1]
  note https = routes[THEN conjunct2, THEN conjunct1, THEN mp, OF p(3),
      THEN conjunct2, THEN conjunct1]
  note sra = routes[THEN conjunct2, THEN conjunct2, THEN conjunct1, THEN mp, OF p(4)]
  note loc = routes[THEN conjunct2, THEN conjunct2, THEN conjunct2, THEN mp, OF p(5)]
  from t_missing[of "''missing.fasta''"] l e
  have "fst (get_reads_from_url sys_ok ''missing.fasta'' ''/share/ws'' world0)
     = Inl (AssertionError ''Input file does not exist (missing.fasta)'')"
    by simp
  moreover from t_s3[of "''s3://bucket/reads.fastq.gz''"]
  have "source_branch ''s3://bucket/reads.fastq.gz'' = ObjectStoreCopy"
    by (simp add: startswith_def)
  moreover from t_url[of "''https://host/reads.fastq''"]
  have "source_branch ''https://host/reads.fastq'' = UrlFetch"
    by (simp add: startswith_def)
  moreover from t_sra[of "''sra://SRR000001''"]
  have "source_branch ''sra://SRR000001'' = ArchiveFetch"
    by (simp add: startswith_def)
  moreover from s3 w0 n
  have "fst (get_reads_from_url sys_tools ''s3://bucket/reads.fastq.gz'' ''/share/ws'' world0)
       = Inl (AssertionError ''Exit code 4'')"
    by (simp add: sys_tools_def)
  moreover from https w0 n
  have "fst (get_reads_from_url sys_tools ''https://host/reads.fastq'' ''/share/ws'' world0)
       = Inl (AssertionError ''Exit code 8'')"
    by (simp add: sys_tools_def)
  moreover from ftp w0 n
  have "fst (get_reads_from_url sys_tools ''ftp://host/reads.fastq'' ''/share/ws'' world0)
       = Inl (AssertionError ''Exit code 8'')"
    by (simp add: sys_tools_def)
  moreover
  have "fst (get_reads_from_url sys_tools ''sra://SRR000001'' ''/share/ws'' world0)
       = Inl (OSError ''/root/ncbi'')"
    unfolding sra
    by (simp add: w0 get_sra_def set_up_sra_cache_folder_def Let_def
        mkdir_def exists_def parent_ok_def dirname_def isdir_def)
  moreover
  have "get_reads_from_url sys_tools ''missing.fasta'' ''/share/ws'' world0
       = (Inl (AssertionError ''Input file does not exist (missing.fasta)''),
          \<lparr>fs = [], clock = 0,
           log = [''Getting reads from missing.fasta'', ''Filename: missing.fasta'',
                  ''Local path: /share/ws/missing.fasta'', ''Treating as local path'']\<rparr>)"
    unfolding loc
    by (simp add: exists_def path_join_def startswith_def endswith_def suffix_to_prefix
        info_def world0_def)
  ultimately show ?thesis
    using l by simp
qed

theorem normalize_reads_by_last_character_witness:
  "normalize_reads sys_ok ''ws/reads.fasta'' world0 = (Inr ''ws/reads.fasta'', world0)
   \<and> (\<exists>w'. normalize_reads sys_ok ''ws/reads.fastq.gz'' world0 = (Inr ''ws/reads.fasta'', w'))
   \<and> fst (normalize_reads sys_tools ''ws/reads.fastq'' world0) = Inr ''ws/reads.fasta''
   \<and> fs (snd (normalize_reads sys_tools ''ws/reads.fastq'' world0))
       = [(''ws/reads.fasta'', File ''>r1'')]
   \<and> fst (normalize_reads sys_tools ''ws/reads.fastq.gz'' world0) = Inr ''ws/reads.fasta''
   \<and> fs (snd (normalize_reads sys_tools ''ws/reads.fastq.gz'' world0))
       = [(''ws/reads.fasta'', File ''>r1''), (''ws/reads.fastq'', File ''@r1'')]
   \<and> clock (snd (normalize_reads sys_tools ''ws/reads.fastq.gz'' world0)) = 2
   \<and> fst (normalize_reads sys_failing ''ws/reads.fastq'' world0)
       = Inl (AssertionError ''Exit code 1'')
   \<and> fst (normalize_reads sys_failing ''ws/reads.fastq.gz'' world0)
       = Inl (AssertionError ''Exit code 1'')
   \<and> clock (snd (normalize_reads sys_failing ''ws/reads.fastq.gz'' world0)) = 1"
proof -
  have ok: "\<forall>c n f. \<exists>r. sys_ok c n f = Some r \<and> exitcode r = 0"
    by (simp add: sys_ok_def)
  have gz: "endswith ''ws/reads.fastq.gz'' ''.gz''" "\<not> endswith ''ws/reads.fasta'' ''.gz''"
    "\<not> endswith ''ws/reads.fastq'' ''.gz''"
    by (simp_all add: endswith_def suffix_to_prefix)
  have w0: "clock world0 = 0" "fs world0 = []"
    by (simp_all add: world0_def)
  have one: "str_int 1 = ''1''"
    by (simp add: str_int_def str_nat.simps)
  from normalize_reads_by_last_character[of "''ws/reads.fasta''" sys_ok world0]
    normalize_reads_by_last_character[of "''ws/reads.fastq.gz''" sys_ok world0] ok gz
  have a: "normalize_reads sys_ok ''ws/reads.fasta'' world0 = (Inr ''ws/reads.fasta'', world0)
   \<and> (\<exists>w'. normalize_reads sys_ok ''ws/reads.fastq.gz'' world0 = (Inr ''ws/reads.fasta'', w'))"
    by (simp add: Let_def)
  from normalize_reads_by_last_character[of "''ws/reads.fastq''" sys_tools world0] gz w0
  have b: "fst (normalize_reads sys_tools ''ws/reads.fastq'' world0) = Inr ''ws/reads.fasta''
   \<and> fs (snd (normalize_reads sys_tools ''ws/reads.fastq'' world0))
       = [(''ws/reads.fasta'', File ''>r1'')]"
    by (simp add: Let_def sys_tools_def)
  from normalize_reads_by_last_character[of "''ws/reads.fastq.gz''" sys_tools world0] gz w0
  have c: "fst (normalize_reads sys_tools ''ws/reads.fastq.gz'' world0) = Inr ''ws/reads.fasta''
   \<and> fs (snd (normalize_reads sys_tools ''ws/reads.fastq.gz'' world0))
       = [(''ws/reads.fasta'', File ''>r1''), (''ws/reads.fastq'', File ''@r1'')]
   \<and> clock (snd (normalize_reads sys_tools ''ws/reads.fastq.gz'' world0)) = 2"
    by (simp add: Let_def sys_tools_def)
  from normalize_reads_by_last_character[of "''ws/reads.fastq''" sys_failing world0] gz w0 one
  have d: "fst (normalize_reads sys_failing ''ws/reads.fastq'' world0)
       = Inl (AssertionError ''Exit code 1'')"
    by (simp add: Let_def sys_failing_def)
  from normalize_reads_by_last_character[of "''ws/reads.fastq.gz''" sys_failing world0] gz w0 one
  have e: "fst (normalize_reads sys_failing ''ws/reads.fastq.gz'' world0)
       = Inl (AssertionError ''Exit code 1'')
   \<and> clock (snd (normalize_reads sys_failing ''ws/reads.fastq.gz'' world0)) = 1"
    by (simp add: Let_def sys_failing_def)
  from a b c d e show ?thesis
    by blast
qed

subsection \<open>Two runs of the main program\<close>


lemmas fs_eval = exists_def isdir_def parent_ok_def dirname_def open_wt_def open_append_def
  mkdir_def copyfile_def rmtree_def is_under_def st_size_def path_join_def startswith_def
  endswith_def suffix_to_prefix

lemma set_up_local:
  "set_up ''0a1b2c3d'' args_local world_local =
     (Inr (''/share/0a1b2c3d'', ''/share/0a1b2c3d/S1.log.txt''),
      \<lparr>fs = [(''/share'', Dir), (''/data'', Dir),
         (''/data/reads.fasta'', File ''>s1 ACGT''), (''/share/0a1b2c3d'', Dir),
         (''/share/0a1b2c3d/S1.log.txt'', File [])], clock = 0, log = []\<rparr>)"
  by (simp add: set_up_def Let_def args_local_def world_local_def fs_eval)

lemma branch_local: "source_branch ''/data/reads.fasta'' = LocalCopy"
  by (simp add: source_branch_def startswith_def)

lemma fetch_local:
  "\<exists>l. get_reads_from_url sys ''/data/reads.fasta'' ''/share/0a1b2c3d''
     \<lparr>fs = [(''/share'', Dir), (''/data'', Dir),
         (''/data/reads.fasta'', File ''>s1 ACGT''), (''/share/0a1b2c3d'', Dir),
         (''/share/0a1b2c3d/S1.log.txt'', File [])], clock = 0,
       log = [''Fetching input file'']\<rparr>
   = (Inr ''/share/0a1b2c3d/reads.fasta'', \<lparr>fs = fs_ready, clock = 0, log = l\<rparr>)"
  by (simp add: get_reads_from_url_def fetch_reads_def branch_local normalize_reads_def
      decompress_reads_def convert_reads_def Let_def info_def fs_eval fs_ready_def)

lemma main_local:
  "main sys ''0a1b2c3d'' args_local world_local =
     cluster_and_publish sys args_local ''/share/0a1b2c3d'' ''/share/0a1b2c3d/S1.log.txt''
       ''/share/0a1b2c3d/reads.fasta''
       (snd (get_reads_from_url sys ''/data/reads.fasta'' ''/share/0a1b2c3d''
     \<lparr>fs = [(''/share'', Dir), (''/data'', Dir),
         (''/data/reads.fasta'', File ''>s1 ACGT''), (''/share/0a1b2c3d'', Dir),
         (''/share/0a1b2c3d/S1.log.txt'', File [])], clock = 0,
       log = [''Fetching input file'']\<rparr>))"
proof -
  have i: "arg_input args_local = ''/data/reads.fasta''"
    by (simp add: args_local_def)
  from fetch_local[of sys] show ?thesis
    by (auto simp add: main_def set_up_local i info_def)
qed

lemma args_local_fields:
  "arg_input args_local = ''/data/reads.fasta''" "arg_sample_name args_local = ''S1''"
  "arg_output_folder args_local = ''/out''" "arg_temp_folder args_local = ''/share''"
  by (simp_all add: args_local_def)

lemma swarm_local:
  "swarm_command args_local r f c =
    [''swarmwrapper'', ''cluster'', r, ''-D'', ''-w'', f, ''-a'', c, ''-d'', ''1'', ''-M'', ''1'']"
  by (simp add: swarm_command_def args_local_def str_int_def str_nat.simps)

text \<open>
  Claim C5, evaluated where it fails. The reads are a local file and the clustering tool exits
  with status 3. \<open>exit_and_clean_up\<close> hands the exception object, not the exit status of
  the tool, to \<open>sys.exit\<close>: the process ends with status 1.
\<close>

theorem exit_status_ignores_exit_code:
  "fst (main sys_exit3 ''0a1b2c3d'' args_local world_local)
     = SystemExit (PyExc (AssertionError ''Exit code 3''))
   \<and> exit_status (fst (main sys_exit3 ''0a1b2c3d'' args_local world_local)) = 1"
proof -
  from fetch_local[of sys_exit3] obtain l where
    "get_reads_from_url sys_exit3 ''/data/reads.fasta'' ''/share/0a1b2c3d''
     \<lparr>fs = [(''/share'', Dir), (''/data'', Dir),
         (''/data/reads.fasta'', File ''>s1 ACGT''), (''/share/0a1b2c3d'', Dir),
         (''/share/0a1b2c3d/S1.log.txt'', File [])], clock = 0,
       log = [''Fetching input file'']\<rparr>
   = (Inr ''/share/0a1b2c3d/reads.fasta'', \<lparr>fs = fs_ready, clock = 0, log = l\<rparr>)"
    by blast
  then have "fst (main sys_exit3 ''0a1b2c3d'' args_local world_local)
     = SystemExit (PyExc (AssertionError ''Exit code 3''))"
    by (simp add: main_local cluster_and_publish_def Let_def swarm_local run_eval sys_exit3_def
        exit_and_clean_up_def fs_eval fs_ready_def args_local_fields)
  then show ?thesis
    by simp
qed

text \<open>
  Claim C1, evaluated where it fails. The clustering tool exits with status 0 and leaves the
  CSV output empty. The assertion of line 348 fails outside any \<open>try\<close>: the process ends
  with the uncaught assertion error, \<open>exit_and_clean_up\<close> is not called, and the workspace
  directory is still there with the empty file in it.
\<close>

theorem empty_output_leaves_workspace:
  "fst (main sys_empty_csv ''0a1b2c3d'' args_local world_local) = Uncaught (AssertionError [])
   \<and> isdir (fs (snd (main sys_empty_csv ''0a1b2c3d'' args_local world_local))) ''/share/0a1b2c3d''
   \<and> map_of (fs (snd (main sys_empty_csv ''0a1b2c3d'' args_local world_local)))
        ''/share/0a1b2c3d/S1.swarm.csv'' = Some (File [])"
proof -
  from fetch_local[of sys_empty_csv] obtain l where
    "get_reads_from_url sys_empty_csv ''/data/reads.fasta'' ''/share/0a1b2c3d''
     \<lparr>fs = [(''/share'', Dir), (''/data'', Dir),
         (''/data/reads.fasta'', File ''>s1 ACGT''), (''/share/0a1b2c3d'', Dir),
         (''/share/0a1b2c3d/S1.log.txt'', File [])], clock = 0,
       log = [''Fetching input file'']\<rparr>
   = (Inr ''/share/0a1b2c3d/reads.fasta'', \<lparr>fs = fs_ready, clock = 0, log = l\<rparr>)"
    by blast
  then have "main sys_empty_csv ''0a1b2c3d'' args_local world_local
     = (Uncaught (AssertionError []),
        \<lparr>fs = fs_ready @ [(''/share/0a1b2c3d/S1.swarm.fasta'', File ''>otu1 ACGT''),
                (''/share/0a1b2c3d/S1.swarm.csv'', File [])], clock = 1,
          log = l @ [''FASTA output: /share/0a1b2c3d/S1.swarm.fasta'',
        ''CSV output: /share/0a1b2c3d/S1.swarm.csv'', ''Commands:'',
        ''swarmwrapper cluster /share/0a1b2c3d/reads.fasta -D -w /share/0a1b2c3d/S1.swarm.fasta -a /share/0a1b2c3d/S1.swarm.csv -d 1 -M 1'',
        ''Seconds elapsed: '']\<rparr>)"
    by (simp add: main_local cluster_and_publish_def Let_def swarm_local run_eval
        sys_empty_csv_def fs_eval fs_ready_def args_local_fields)
  then show ?thesis
    by (simp add: isdir_def fs_ready_def)
qed

subsection \<open>The workspace after a failed run\<close>


lemma rmtree_removes:
  assumes "rmtree f d = Inr f'" "p = d \<or> is_under d p"
  shows "map_of f' p = None"
proof -
  from assms(1) have f': "f' = filter (\<lambda>e. (\<lambda>k. k \<noteq> d \<and> \<not> is_under d k) (fst e)) f"
    by (auto simp: rmtree_def split: if_splits)
  have "map_of f' p = (map_of f |` Collect (\<lambda>k. k \<noteq> d \<and> \<not> is_under d k)) p"
    unfolding f' using map_of_filter[of "\<lambda>k. k \<noteq> d \<and> \<not> is_under d k" f] by simp
  with assms(2) show ?thesis
    by (auto simp: restrict_map_def)
qed

lemma rmtree_fails: "rmtree f d = Inl e \<Longrightarrow> d \<noteq> ''/'' \<Longrightarrow> \<not> isdir f d"
  by (auto simp: rmtree_def split: if_splits)

lemma set_up_workspace:
  assumes "set_up uid a w = (Inr (T, L), w0)"
  shows "T \<noteq> [] \<and> T \<noteq> ''/'' \<and> isdir (fs w0) T"
proof -
  let ?T = "path_join (arg_temp_folder a) uid"
  from assms obtain f1 where t: "T = ?T" and ne: "\<not> exists (fs w) ?T"
    and mk: "mkdir (fs w) ?T = Inr f1"
    and op: "open_append f1 (path_join ?T (arg_sample_name a @ ''.log.txt'')) = Inr (fs w0)"
    by (auto simp: set_up_def Let_def split: if_splits sum.splits)
  from ne have n1: "?T \<noteq> ''/''"
    by (auto simp: exists_def)
  from mk have n2: "?T \<noteq> []" and f1: "f1 = AList.update ?T Dir (fs w)"
    by (auto simp: mkdir_def split: if_splits)
  let ?L = "path_join ?T (arg_sample_name a @ ''.log.txt'')"
  have d1: "isdir f1 ?T"
    by (simp add: isdir_def f1 AList.update_conv')
  from op have nd: "\<not> isdir f1 ?L" and w0: "fs w0 = f1 \<or> fs w0 = AList.update ?L (File []) f1"
    by (auto simp: open_append_def split: if_splits)
  from nd d1 have "?L \<noteq> ?T"
    by auto
  with w0 d1 have "isdir (fs w0) ?T"
    by (auto simp: isdir_def AList.update_conv')
  with n1 n2 t show ?thesis
    by simp
qed

lemma under_not_root: "is_under d p \<Longrightarrow> d \<noteq> [] \<Longrightarrow> p \<noteq> ''/''"
  by (auto simp: is_under_def startswith_def elim!: prefixE simp: append_eq_Cons_conv)

lemma exit_and_clean_up_removes:
  assumes "T \<noteq> []" "T \<noteq> ''/''"
  shows "\<not> isdir (fs (snd (exit_and_clean_up T e wx))) T
     \<and> (isdir (fs wx) T \<longrightarrow>
          (\<forall>p. p = T \<or> is_under T p \<longrightarrow> \<not> exists (fs (snd (exit_and_clean_up T e wx))) p))"
proof (cases "rmtree (fs wx) T")
  case (Inl x)
  with assms rmtree_fails[OF Inl] show ?thesis
    by (simp add: exit_and_clean_up_def Let_def)
next
  case (Inr f')
  have gone: "map_of f' p = None" if "p = T \<or> is_under T p" for p
    using rmtree_removes[OF Inr that] .
  have nr: "p \<noteq> ''/''" if "p = T \<or> is_under T p" for p
    using that assms under_not_root[of T p] by auto
  from gone nr have "\<forall>p. p = T \<or> is_under T p \<longrightarrow> \<not> exists f' p"
    by (auto simp: exists_def)
  moreover from gone[of T] assms have "\<not> isdir f' T"
    by (simp add: isdir_def)
  ultimately show ?thesis
    using Inr by (simp add: exit_and_clean_up_def Let_def)
qed

subsection \<open>A directory that the external programs leave in place\<close>


lemma isdir_update: "isdir f T \<Longrightarrow> \<not> isdir f p \<Longrightarrow> isdir (AList.update p nd f) T"
  by (auto simp: isdir_def AList.update_conv')

lemma open_wt_keeps: "open_wt f p = Inr f' \<Longrightarrow> isdir f T \<Longrightarrow> isdir f' T"
  by (auto simp: open_wt_def isdir_update split: if_splits)

lemma write_fd_keeps: "isdir f T \<Longrightarrow> isdir (write_fd f p t) T"
  by (auto simp: write_fd_def isdir_def AList.update_conv' split: option.splits node.splits)

lemma launch_keeps:
  "keeps_dir sys T \<Longrightarrow> launch sys c so w = (x, w') \<Longrightarrow> isdir (fs w) T \<Longrightarrow> isdir (fs w') T"
  by (auto simp: launch_def keeps_dir_def write_fd_keeps
      split: option.splits sum.splits dest: open_wt_keeps)

lemma attempt_keeps:
  "keeps_dir sys T \<Longrightarrow> attempt sys c so w = (x, w') \<Longrightarrow> isdir (fs w) T \<Longrightarrow> isdir (fs w') T"
  by (auto simp: attempt_def split: prod.splits sum.splits
      dest!: log_output_Inr dest: launch_keeps)

lemma run_cmds_keeps:
  "keeps_dir sys T \<Longrightarrow> isdir (fs w) T \<Longrightarrow> isdir (fs (snd (run_cmds sys c retry ce so w))) T"
proof (induction sys c retry ce so w rule: run_cmds.induct)
  case (1 sys commands retry catchExcept stdout w)
  obtain x w1 where a: "attempt sys commands stdout w = (x, w1)"
    by (cases "attempt sys commands stdout w")
  from attempt_keeps[OF 1(2) a 1(3)] have d1: "isdir (fs w1) T" .
  show ?case
  proof (cases x)
    case (Inl e)
    with a d1 show ?thesis
      by (simp add: run_cmds.simps[of sys commands retry catchExcept stdout w])
  next
    case (Inr code)
    let ?w2 = "info (''Exit code '' @ str_int code @ '', retrying ''
                       @ str_int retry @ '' more times'') w1"
    show ?thesis
    proof (cases "code \<noteq> 0 \<and> retry > 0")
      case True
      from d1 have "isdir (fs ?w2) T" by simp
      from 1(1)[OF a[symmetric, unfolded Inr] refl True 1(2) this]
      have "isdir (fs (snd (run_cmds sys commands (retry - 1) False None ?w2))) T" .
      with True a Inr show ?thesis
        by (auto simp add: run_cmds.simps[of sys commands retry catchExcept stdout w]
            split: prod.splits sum.splits)
    next
      case False
      with a Inr d1 show ?thesis
        by (auto simp add: run_cmds.simps[of sys commands retry catchExcept stdout w])
    qed
  qed
qed

lemma run_cmds_keeps':
  "keeps_dir sys T \<Longrightarrow> run_cmds sys c retry ce so w = (x, w') \<Longrightarrow> isdir (fs w) T
   \<Longrightarrow> isdir (fs w') T"
  using run_cmds_keeps[of sys T w c retry ce so] by simp

lemma copyfile_keeps: "copyfile f a b = Inr f' \<Longrightarrow> isdir f T \<Longrightarrow> isdir f' T"
  by (auto simp: copyfile_def open_wt_def isdir_def AList.update_conv'
      split: if_splits option.splits node.splits sum.splits)

lemma mkdir_keeps: "mkdir f p = Inr f' \<Longrightarrow> isdir f T \<Longrightarrow> isdir f' T"
  by (auto simp: mkdir_def isdir_def AList.update_conv' split: if_splits)

lemma make_missing_dirs_keeps: "make_missing_dirs ps f = Inr f' \<Longrightarrow> isdir f T \<Longrightarrow> isdir f' T"
  by (induction ps arbitrary: f) (auto split: if_splits sum.splits dest: mkdir_keeps)

lemma unlink_keeps: "unlink f p = Inr f' \<Longrightarrow> isdir f T \<Longrightarrow> isdir f' T"
proof -
  assume u: "unlink f p = Inr f'" and d: "isdir f T"
  from u obtain c where c: "map_of f p = Some (File c)" and f': "f' = AList.delete p f"
    by (auto simp: unlink_def split: option.splits node.splits)
  show ?thesis
  proof (cases "T = ''/''")
    case True
    then show ?thesis by (simp add: isdir_def)
  next
    case False
    with d have "map_of f T = Some Dir" by (simp add: isdir_def)
    with c have "T \<noteq> p" by auto
    with \<open>map_of f T = Some Dir\<close> show ?thesis
      by (simp add: isdir_def f' AList.delete_conv')
  qed
qed

lemma rmtree_keeps:
  assumes "rmtree f d = Inr f'" "isdir f T" "T \<noteq> d" "\<not> is_under d T"
  shows "isdir f' T"
proof -
  from assms(1) have f': "f' = filter (\<lambda>e. (\<lambda>k. k \<noteq> d \<and> \<not> is_under d k) (fst e)) f"
    by (auto simp: rmtree_def split: if_splits)
  have "map_of f' T = (map_of f |` Collect (\<lambda>k. k \<noteq> d \<and> \<not> is_under d k)) T"
    unfolding f' using map_of_filter[of "\<lambda>k. k \<noteq> d \<and> \<not> is_under d k" f] by simp
  with assms(2-4) show ?thesis
    by (auto simp: isdir_def restrict_map_def)
qed

lemma set_up_sra_cache_folder_keeps:
  assumes k: "keeps_dir sys T" and c: "set_up_sra_cache_folder sys tf w = (x, w')"
    and d: "isdir (fs w) T"
    and o: "T \<noteq> ''/root/ncbi/public/sra''" "\<not> is_under ''/root/ncbi/public/sra'' T"
  shows "isdir (fs w') T"
proof -
  let ?w0 = "info (''Setting up fastq-dump cache within '' @ tf) w"
  let ?cache = "''/root/ncbi/public/sra''"
  let ?tc = "path_join tf ''sra''"
  have d0: "isdir (fs ?w0) T"
    using d by simp
  show ?thesis
  proof (cases "make_missing_dirs [''/root/ncbi'', ''/root/ncbi/public''] (fs ?w0)")
    case (Inl e)
    from c have "w' = ?w0"
      unfolding set_up_sra_cache_folder_def Let_def Inl sum.case by simp
    with d0 show ?thesis by simp
  next
    case f1: (Inr f1)
    from make_missing_dirs_keeps[OF f1 d0] have d1: "isdir f1 T" .
    show ?thesis
    proof (cases "if exists f1 ?cache then rmtree f1 ?cache else Inr f1")
      case (Inl e)
      from c have "w' = ?w0\<lparr>fs := f1\<rparr>"
        unfolding set_up_sra_cache_folder_def Let_def f1 Inl sum.case by simp
      with d1 show ?thesis by simp
    next
      case f2: (Inr f2)
      from f2 d1 o have d2: "isdir f2 T"
        by (auto split: if_splits intro: rmtree_keeps)
      show ?thesis
      proof (cases "exists f2 ?tc")
        case True
        from c have "w' = ?w0\<lparr>fs := f2\<rparr>"
          unfolding set_up_sra_cache_folder_def Let_def f1 f2 sum.case using True by simp
        with d2 show ?thesis by simp
      next
        case False
        show ?thesis
        proof (cases "mkdir f2 ?tc")
          case (Inl e)
          from c have "w' = ?w0\<lparr>fs := f2\<rparr>"
            unfolding set_up_sra_cache_folder_def Let_def f1 f2 Inl sum.case using False by simp
          with d2 show ?thesis by simp
        next
          case f3: (Inr f3)
          from mkdir_keeps[OF f3 d2] have d3: "isdir (fs (?w0\<lparr>fs := f3\<rparr>)) T"
            by simp
          obtain x4 w4 where s4: "run_cmds sys [''ln'', ''-s'', ''-f'', ?tc, ?cache] 0 False None
              (?w0\<lparr>fs := f3\<rparr>) = (x4, w4)"
            by (cases "run_cmds sys [''ln'', ''-s'', ''-f'', ?tc, ?cache] 0 False None
              (?w0\<lparr>fs := f3\<rparr>)")
          from run_cmds_keeps'[OF k s4 d3] have d4: "isdir (fs w4) T" .
          from c have "w' = w4"
            unfolding set_up_sra_cache_folder_def Let_def f1 f2 f3 s4 sum.case prod.case
            using False by (cases x4) (auto split: if_splits)
          with d4 show ?thesis by simp
        qed
      qed
    qed
  qed
qed

lemma shell_to_file_keeps:
  "keeps_dir sys T \<Longrightarrow> shell_to_file sys cmd p w = (x, w') \<Longrightarrow> isdir (fs w) T
   \<Longrightarrow> isdir (fs w') T"
  by (auto simp: shell_to_file_def keeps_dir_def write_fd_keeps
      split: sum.splits option.splits dest: open_wt_keeps)

lemma remove_parts_keeps:
  "remove_parts A tf names w = (x, w') \<Longrightarrow> isdir (fs w) T \<Longrightarrow> isdir (fs w') T"
  by (induction names arbitrary: w)
    (auto simp: Let_def split: if_splits sum.splits dest: unlink_keeps)


lemma combine_parts_keeps:
  assumes k: "keeps_dir sys T" and c: "combine_parts sys A tf lp w = (x, w')"
    and d: "isdir (fs w) T"
  shows "isdir (fs w') T"
proof -
  let ?cfp = "''/root/ncbi/public/sra/'' @ A @ ''.sra''"
  obtain x1 w1 where s1: "shell_to_file sys (''cat '' @ tf @ ''/'' @ A @ ''*fastq'')
      (lp @ ''.temp'') (info ''Concatenating output files'' w) = (x1, w1)"
    by (cases "shell_to_file sys (''cat '' @ tf @ ''/'' @ A @ ''*fastq'')
      (lp @ ''.temp'') (info ''Concatenating output files'' w)")
  from shell_to_file_keeps[OF k s1] d have d1: "isdir (fs w1) T"
    by simp
  show ?thesis
  proof (cases x1)
    case (Inl e)
    from c have "w' = w1"
      unfolding combine_parts_def Let_def s1 Inl prod.case sum.case by simp
    with d1 show ?thesis by simp
  next
    case (Inr u)
    show ?thesis
    proof (cases "listdir (fs w1) tf")
      case (Inl e)
      from c have "w' = w1"
        unfolding combine_parts_def Let_def s1 Inr Inl prod.case sum.case by simp
      with d1 show ?thesis by simp
    next
      case names: (Inr names)
      obtain x2 w2 where s2: "remove_parts A tf names w1 = (x2, w2)"
        by (cases "remove_parts A tf names w1")
      from remove_parts_keeps[OF s2 d1] have d2: "isdir (fs w2) T" .
      show ?thesis
      proof (cases x2)
        case (Inl e)
        from c have "w' = w2"
          unfolding combine_parts_def Let_def s1 Inr names s2 Inl prod.case sum.case by simp
        with d2 show ?thesis by simp
      next
        case r2: (Inr u2)
        obtain x3 w3 where s3: "(if exists (fs w2) ?cfp then
             (case unlink (fs w2) ?cfp of
                Inl e \<Rightarrow> (Inl e, info (''Removing '' @ ?cfp) w2)
              | Inr f \<Rightarrow> (Inr (), (info (''Removing '' @ ?cfp) w2)\<lparr>fs := f\<rparr>))
           else (Inr (), w2)) = (x3, w3)"
          by (cases "(if exists (fs w2) ?cfp then
             (case unlink (fs w2) ?cfp of
                Inl e \<Rightarrow> (Inl e, info (''Removing '' @ ?cfp) w2)
              | Inr f \<Rightarrow> (Inr (), (info (''Removing '' @ ?cfp) w2)\<lparr>fs := f\<rparr>))
           else (Inr (), w2))")
        have d3: "isdir (fs w3) T"
        proof (cases "exists (fs w2) ?cfp")
          case False
          with s3 d2 show ?thesis by simp
        next
          case True
          show ?thesis
          proof (cases "unlink (fs w2) ?cfp")
            case (Inl e)
            with s3 True d2 show ?thesis by auto
          next
            case (Inr f)
            from unlink_keeps[OF Inr d2] s3 True Inr show ?thesis by auto
          qed
        qed
        show ?thesis
        proof (cases x3)
          case (Inl e)
          from c have "w' = w3"
            unfolding combine_parts_def Let_def s1 Inr names s2 r2 s3 Inl prod.case sum.case
            by simp
          with d3 show ?thesis by simp
        next
          case r3: (Inr u3)
          obtain x4 w4 where s4: "run_cmds sys [''mv'', lp @ ''.temp'', lp] 0 False None w3
              = (x4, w4)"
            by (cases "run_cmds sys [''mv'', lp @ ''.temp'', lp] 0 False None w3")
          from run_cmds_keeps'[OF k s4 d3] have d4: "isdir (fs w4) T" .
          from c have "w' = w4 \<or> w' = info (''Done fetching '' @ A) w4"
            unfolding combine_parts_def Let_def s1 Inr names s2 r2 s3 r3 s4 prod.case sum.case
            by (cases x4) auto
          with d4 show ?thesis by auto
        qed
      qed
    qed
  qed
qed


lemma get_sra_keeps:
  assumes k: "keeps_dir sys T" and c: "get_sra sys A tf w = (x, w')"
    and d: "isdir (fs w) T"
    and o: "T \<noteq> ''/root/ncbi/public/sra''" "\<not> is_under ''/root/ncbi/public/sra'' T"
  shows "isdir (fs w') T"
proof -
  let ?lp = "path_join tf (A @ ''.fastq'')"
  obtain x1 w1 where s1: "set_up_sra_cache_folder sys tf w = (x1, w1)"
    by (cases "set_up_sra_cache_folder sys tf w")
  from set_up_sra_cache_folder_keeps[OF k s1 d o] have d1: "isdir (fs w1) T" .
  let ?w2 = "info ''Downloading via fastq-dump''
                      (info (''Local path: '' @ ?lp)
                         (info (''Downloading '' @ A @ '' from SRA'') w1))"
  have d2: "isdir (fs ?w2) T"
    using d1 by simp
  show ?thesis
  proof (cases x1)
    case (Inl e)
    from c have "w' = w1"
      unfolding get_sra_def Let_def s1 Inl prod.case sum.case by simp
    with d1 show ?thesis by simp
  next
    case r1: (Inr u1)
    obtain x3 w3 where s3: "run_cmds sys [''prefetch'', A] 0 False None ?w2 = (x3, w3)"
      by (cases "run_cmds sys [''prefetch'', A] 0 False None ?w2")
    from run_cmds_keeps'[OF k s3 d2] have d3: "isdir (fs w3) T" .
    show ?thesis
    proof (cases x3)
      case (Inl e)
      from c have "w' = w3"
        unfolding get_sra_def Let_def s1 r1 s3 Inl prod.case sum.case by simp
      with d3 show ?thesis by simp
    next
      case r3: (Inr u3)
      obtain x4 w4 where s4: "run_cmds sys [''fastq-dump'', ''--split-files'', ''--outdir'',
                                   tf, A] 0 False None w3 = (x4, w4)"
        by (cases "run_cmds sys [''fastq-dump'', ''--split-files'', ''--outdir'',
                                   tf, A] 0 False None w3")
      from run_cmds_keeps'[OF k s4 d3] have d4: "isdir (fs w4) T" .
      show ?thesis
      proof (cases x4)
        case (Inl e)
        from c have "w' = w4"
          unfolding get_sra_def Let_def s1 r1 s3 r3 s4 Inl prod.case sum.case by simp
        with d4 show ?thesis by simp
      next
        case r4: (Inr u4)
        show ?thesis
        proof (cases "listdir (fs w4) tf")
          case (Inl e)
          from c have "w' = w4"
            unfolding get_sra_def Let_def s1 r1 s3 r3 s4 r4 Inl prod.case sum.case by simp
          with d4 show ?thesis by simp
        next
          case names: (Inr names)
          show ?thesis
          proof (cases "list_ex (is_part A) names")
            case False
            from c have "w' = w4"
              unfolding get_sra_def Let_def s1 r1 s3 r3 s4 r4 names prod.case sum.case
              using False by simp
            with d4 show ?thesis by simp
          next
            case True
            from c have "combine_parts sys A tf ?lp w4 = (x, w')"
              unfolding get_sra_def Let_def s1 r1 s3 r3 s4 r4 names prod.case sum.case
              using True by simp
            from combine_parts_keeps[OF k this d4] show ?thesis .
          qed
        qed
      qed
    qed
  qed
qed

lemma fetch_reads_keeps:
  assumes k: "keeps_dir sys T" and c: "fetch_reads sys s tf fn lp w = (x, w')"
    and d: "isdir (fs w) T"
    and o: "T \<noteq> ''/root/ncbi/public/sra''" "\<not> is_under ''/root/ncbi/public/sra'' T"
  shows "isdir (fs w') T"
proof (cases "source_branch s")
  case LocalCopy
  show ?thesis
  proof (cases "exists (fs w) s")
    case False
    with c LocalCopy d show ?thesis
      by (auto simp: fetch_reads_def Let_def)
  next
    case True
    show ?thesis
    proof (cases "copyfile (fs w) s lp")
      case (Inl e)
      with c LocalCopy d True show ?thesis
        by (auto simp: fetch_reads_def Let_def)
    next
      case (Inr f)
      from copyfile_keeps[OF Inr d] c LocalCopy True Inr show ?thesis
        by (auto simp: fetch_reads_def Let_def)
    qed
  qed
next
  case ObjectStoreCopy
  let ?run = "run_cmds sys [''aws'', ''s3'', ''cp'', ''--quiet'', ''--sse'', ''AES256'', s, tf]
      0 False None (info ''Getting reads from S3'' w)"
  from run_cmds_keeps[OF k, of "info ''Getting reads from S3'' w"] d
  have "isdir (fs (snd ?run)) T"
    by simp
  moreover from c ObjectStoreCopy have "w' = snd ?run"
    by (cases ?run) (auto simp: fetch_reads_def split: sum.splits)
  ultimately show ?thesis by simp
next
  case UrlFetch
  let ?run = "run_cmds sys [''wget'', ''-P'', tf, s] 0 False None
      (info ''Getting reads from FTP'' w)"
  from run_cmds_keeps[OF k, of "info ''Getting reads from FTP'' w"] d
  have "isdir (fs (snd ?run)) T"
    by simp
  moreover from c UrlFetch have "w' = snd ?run"
    by (cases ?run) (auto simp: fetch_reads_def split: sum.splits)
  ultimately show ?thesis by simp
next
  case ArchiveFetch
  with c have "get_sra sys fn tf (info (''Getting reads from SRA: '' @ fn) w) = (x, w')"
    by (simp add: fetch_reads_def)
  from get_sra_keeps[OF k this _ o] d show ?thesis
    by simp
next
  case Unrecognized
  with c d show ?thesis
    by (simp add: fetch_reads_def)
qed

lemma normalize_reads_keeps:
  assumes k: "keeps_dir sys T" and c: "normalize_reads sys lp w = (x, w')"
    and d: "isdir (fs w) T"
  shows "isdir (fs w') T"
proof -
  obtain x1 w1 where s1: "decompress_reads sys lp w = (x1, w1)"
    by (cases "decompress_reads sys lp w")
  let ?pz = "run_cmds sys [''pigz'', ''-d'', lp] 0 False None (info (''Decompressing '' @ lp) w)"
  from run_cmds_keeps[OF k, of "info (''Decompressing '' @ lp) w"] d
  have "isdir (fs (snd ?pz)) T"
    by simp
  with s1 d have d1: "isdir (fs w1) T"
    by (cases ?pz) (auto simp: decompress_reads_def split: if_splits sum.splits)
  show ?thesis
  proof (cases x1)
    case (Inl e)
    with c s1 d1 show ?thesis
      by (simp add: normalize_reads_def)
  next
    case (Inr p)
    with c s1 have cv: "convert_reads sys p w1 = (x, w')"
      by (simp add: normalize_reads_def)
    let ?cv = "run_cmds sys [''fastq_to_fasta'', ''-i'', p, ''-o'', butlast p @ ''a'']
        0 False None (info ''Converting to FASTA'' w1)"
    from run_cmds_keeps[OF k, of "info ''Converting to FASTA'' w1"] d1
    have "isdir (fs (snd ?cv)) T"
      by simp
    with cv d1 show ?thesis
      by (cases ?cv) (auto simp: convert_reads_def split: if_splits sum.splits)
  qed
qed

lemma get_reads_from_url_keeps:
  assumes k: "keeps_dir sys T" and c: "get_reads_from_url sys s tf w = (x, w')"
    and d: "isdir (fs w) T"
    and o: "T \<noteq> ''/root/ncbi/public/sra''" "\<not> is_under ''/root/ncbi/public/sra'' T"
  shows "isdir (fs w') T"
proof -
  let ?fn = "last (split_on CHR ''/'' s)"
  let ?lp = "path_join tf ?fn"
  let ?w1 = "info (''Local path: '' @ ?lp) (info (''Filename: '' @ ?fn)
                    (info (''Getting reads from '' @ s) w))"
  obtain x2 w2 where s2: "fetch_reads sys s tf ?fn ?lp ?w1 = (x2, w2)"
    by (cases "fetch_reads sys s tf ?fn ?lp ?w1")
  have "isdir (fs ?w1) T"
    using d by simp
  from fetch_reads_keeps[OF k s2 this o] have d2: "isdir (fs w2) T" .
  show ?thesis
  proof (cases x2)
    case (Inl e)
    from c have "w' = w2"
      unfolding get_reads_from_url_def Let_def s2 Inl prod.case sum.case by simp
    with d2 show ?thesis by simp
  next
    case (Inr p)
    from c have "normalize_reads sys p w2 = (x, w')"
      unfolding get_reads_from_url_def Let_def s2 Inr prod.case sum.case by simp
    from normalize_reads_keeps[OF k this d2] show ?thesis .
  qed
qed

text \<open>
  Claim C6. The workspace \<open>T\<close> was set up, and the run fails in \<open>get_reads_from_url\<close>
  (fetching and normalizing) or in the \<open>run_cmds\<close> call of the clustering tool, with the
  exception \<open>e\<close> caught in the world \<open>wx\<close>. When the process has ended the workspace
  directory does not exist. Nothing exists at its path or below it when the directory was
  still there as the exception was caught; and it was still there when no external program
  removes or replaces the directory itself and the workspace does not lie in the cache
  directory \<open>/root/ncbi/public/sra\<close>, which \<open>set_up_sra_cache_folder\<close> removes.
\<close>

theorem failed_run_removes_workspace:
  assumes init: "set_up uid a w = (Inr (T, L), w0)"
    and fail: "get_reads_from_url sys (arg_input a) T (info ''Fetching input file'' w0)
                 = (Inl e, wx)
               \<or> (\<exists>R w1.
                    get_reads_from_url sys (arg_input a) T (info ''Fetching input file'' w0)
                      = (Inr R, w1)
                    \<and> run_cmds sys
                        (swarm_command a R (path_join T (arg_sample_name a @ ''.swarm.fasta''))
                           (path_join T (arg_sample_name a @ ''.swarm.csv''))) 0 False None
                        (info (''CSV output: '' @ path_join T (arg_sample_name a @ ''.swarm.csv''))
                           (info (''FASTA output: ''
                                    @ path_join T (arg_sample_name a @ ''.swarm.fasta'')) w1))
                      = (Inl e, wx))"
  shows "\<not> isdir (fs (snd (main sys uid a w))) T
     \<and> (isdir (fs wx) T \<longrightarrow>
          (\<forall>p. p = T \<or> is_under T p \<longrightarrow> \<not> exists (fs (snd (main sys uid a w))) p))
     \<and> (keeps_dir sys T \<and> T \<noteq> ''/root/ncbi/public/sra''
          \<and> \<not> is_under ''/root/ncbi/public/sra'' T \<longrightarrow>
          (\<forall>p. p = T \<or> is_under T p \<longrightarrow> \<not> exists (fs (snd (main sys uid a w))) p))"
proof -
  from fail have m: "main sys uid a w = exit_and_clean_up T e wx"
    by (auto simp: main_def init cluster_and_publish_def Let_def)
  from set_up_workspace[OF init] have t: "T \<noteq> []" "T \<noteq> ''/''" and d0: "isdir (fs w0) T"
    by simp_all
  note r = exit_and_clean_up_removes[OF t, of e wx]
  have still: "isdir (fs wx) T"
    if k: "keeps_dir sys T" and o: "T \<noteq> ''/root/ncbi/public/sra''"
      "\<not> is_under ''/root/ncbi/public/sra'' T"
  proof -
    have d0': "isdir (fs (info ''Fetching input file'' w0)) T"
      using d0 by simp
    from fail show ?thesis
    proof
      assume "get_reads_from_url sys (arg_input a) T (info ''Fetching input file'' w0)
                 = (Inl e, wx)"
      from get_reads_from_url_keeps[OF k this d0' o] show ?thesis .
    next
      assume "\<exists>R w1.
                    get_reads_from_url sys (arg_input a) T (info ''Fetching input file'' w0)
                      = (Inr R, w1)
                    \<and> run_cmds sys
                        (swarm_command a R (path_join T (arg_sample_name a @ ''.swarm.fasta''))
                           (path_join T (arg_sample_name a @ ''.swarm.csv''))) 0 False None
                        (info (''CSV output: '' @ path_join T (arg_sample_name a @ ''.swarm.csv''))
                           (info (''FASTA output: ''
                                    @ path_join T (arg_sample_name a @ ''.swarm.fasta'')) w1))
                      = (Inl e, wx)"
      then obtain R w1 where
        g: "get_reads_from_url sys (arg_input a) T (info ''Fetching input file'' w0)
              = (Inr R, w1)"
        and c: "run_cmds sys
                  (swarm_command a R (path_join T (arg_sample_name a @ ''.swarm.fasta''))
                     (path_join T (arg_sample_name a @ ''.swarm.csv''))) 0 False None
                  (info (''CSV output: '' @ path_join T (arg_sample_name a @ ''.swarm.csv''))
                     (info (''FASTA output: ''
                              @ path_join T (arg_sample_name a @ ''.swarm.fasta'')) w1))
                = (Inl e, wx)"
        by blast
      from get_reads_from_url_keeps[OF k g d0' o] have "isdir (fs w1) T" .
      then have "isdir (fs (info (''CSV output: ''
                    @ path_join T (arg_sample_name a @ ''.swarm.csv''))
                 (info (''FASTA output: ''
                          @ path_join T (arg_sample_name a @ ''.swarm.fasta'')) w1))) T"
        by simp
      from run_cmds_keeps'[OF k c this] show ?thesis .
    qed
  qed
  from r still show ?thesis
    unfolding m by blast
qed

theorem failed_run_removes_workspace_witness:
  "\<not> isdir (fs (snd (main sys_exit3 ''0a1b2c3d'' args_local world_local))) ''/share/0a1b2c3d''
   \<and> \<not> exists (fs (snd (main sys_exit3 ''0a1b2c3d'' args_local world_local)))
         ''/share/0a1b2c3d''
   \<and> \<not> exists (fs (snd (main sys_exit3 ''0a1b2c3d'' args_local world_local)))
         ''/share/0a1b2c3d/reads.fasta''
   \<and> \<not> exists (fs (snd (main sys_exit3 ''0a1b2c3d'' args_local world_local)))
         ''/share/0a1b2c3d/S1.log.txt''"
proof -
  let ?T = "''/share/0a1b2c3d''"
  let ?w0 = "\<lparr>fs = [(''/share'', Dir), (''/data'', Dir),
         (''/data/reads.fasta'', File ''>s1 ACGT''), (''/share/0a1b2c3d'', Dir),
         (''/share/0a1b2c3d/S1.log.txt'', File [])], clock = 0, log = []\<rparr>"
  from fetch_local[of sys_exit3] obtain l where
    fetch: "get_reads_from_url sys_exit3 (arg_input args_local) ?T
              (info ''Fetching input file'' ?w0)
            = (Inr ''/share/0a1b2c3d/reads.fasta'', \<lparr>fs = fs_ready, clock = 0, log = l\<rparr>)"
    by (auto simp: args_local_fields info_def)
  let ?run = "run_cmds sys_exit3
                (swarm_command args_local ''/share/0a1b2c3d/reads.fasta''
                   (path_join ?T (arg_sample_name args_local @ ''.swarm.fasta''))
                   (path_join ?T (arg_sample_name args_local @ ''.swarm.csv''))) 0 False None
                (info (''CSV output: '' @ path_join ?T (arg_sample_name args_local @ ''.swarm.csv''))
                   (info (''FASTA output: ''
                            @ path_join ?T (arg_sample_name args_local @ ''.swarm.fasta''))
                      \<lparr>fs = fs_ready, clock = 0, log = l\<rparr>))"
  have r1: "fst ?run = Inl (AssertionError ''Exit code 3'')" and r2: "fs (snd ?run) = fs_ready"
    by (simp_all add: swarm_local run_eval sys_exit3_def)
  then have run: "?run = (Inl (AssertionError ''Exit code 3''), snd ?run)"
    by (metis prod.collapse)
  have d: "isdir (fs (snd ?run)) ?T"
    unfolding r2 by (simp add: fs_ready_def isdir_def)
  have u: "is_under ?T ''/share/0a1b2c3d/reads.fasta''" "is_under ?T ''/share/0a1b2c3d/S1.log.txt''"
    by (simp_all add: is_under_def startswith_def)
  from failed_run_removes_workspace[of "''0a1b2c3d''" args_local world_local ?T
      "''/share/0a1b2c3d/S1.log.txt''" ?w0 sys_exit3 "AssertionError ''Exit code 3''" "snd ?run",
      OF set_up_local] fetch run d u
  show ?thesis
    by blast
qed

subsection \<open>The parts of an archive download\<close>




















end
